theory Spec2Isabelle
  imports Main "HOL-Library.Finite_Map"
begin

section \<open>JavaScript values\<close>

text \<open>
  The values that flow through configuration objects and context slots. Objects are
  finite maps from property names to values (own properties only; the prototype chain
  is not modelled). Numbers are restricted to the integers plus \<open>NaN\<close>, which is all
  that truthiness distinguishes.
\<close>

datatype jsval =
    JUndefined
  | JNull
  | JBool bool
  | JNum int
  | JNaN
  | JStr string
  | JObj "(string, jsval) fmap"

type_synonym jsobj = "(string, jsval) fmap"

text \<open>The test \<^verbatim>\<open>if (v)\<close>: every value is truthy except
  \<^verbatim>\<open>undefined\<close>, \<^verbatim>\<open>null\<close>, \<^verbatim>\<open>false\<close>, \<^verbatim>\<open>0\<close>, \<^verbatim>\<open>NaN\<close> and the empty string.\<close>

fun truthy :: "jsval \<Rightarrow> bool" where
  "truthy JUndefined = False"
| "truthy JNull = False"
| "truthy (JBool b) = b"
| "truthy (JNum n) = (n \<noteq> 0)"
| "truthy JNaN = False"
| "truthy (JStr s) = (s \<noteq> [])"
| "truthy (JObj m) = True"

text \<open>Property read \<^verbatim>\<open>obj[key]\<close> on a plain object, for a name that
  \<^verbatim>\<open>Object.prototype\<close> itself does not define: a missing key reads as \<^verbatim>\<open>undefined\<close>.\<close>

definition getProp :: "jsobj \<Rightarrow> string \<Rightarrow> jsval" where
  "getProp obj key = (case fmlookup obj key of Some v \<Rightarrow> v | None \<Rightarrow> JUndefined)"

section \<open>The middleware composition engine (src/core/Kint.ts)\<close>

subsection \<open>Request-time state\<close>

text \<open>
  A context object is an ordinary, extensible object: its own properties, all writable
  data properties, and its prototype. The prototype is \<^verbatim>\<open>Object.prototype\<close> (an object
  literal or a class instance), \<^verbatim>\<open>null\<close>, or a plain object put there by an
  assignment to \<^verbatim>\<open>__proto__\<close>; a plain object's own prototype is
  \<^verbatim>\<open>Object.prototype\<close>.
\<close>

datatype Prototype = ObjectPrototype | NoPrototype | PlainObject jsobj

record ContextObject =
  own :: "string \<rightharpoonup> jsval"
  proto :: Prototype

text \<open>The object literal \<^verbatim>\<open>{}\<close>.\<close>

definition emptyContext :: ContextObject where
  "emptyContext = \<lparr> own = Map.empty, proto = ObjectPrototype \<rparr>"

text \<open>
  The assignment \<^verbatim>\<open>obj[key] = v\<close>. It creates or updates an own property, unless the
  lookup of \<open>key\<close> along the prototype chain ends at an accessor: of the properties of
  \<^verbatim>\<open>Object.prototype\<close> only \<^verbatim>\<open>__proto__\<close> is one. Its setter is reached when
  neither the object nor a plain object that is its prototype has an own property of that
  name, and the prototype is not \<^verbatim>\<open>null\<close>. The setter replaces the prototype when
  \<open>v\<close> is an object or \<^verbatim>\<open>null\<close> and does nothing for any other value.
\<close>

definition reachesProtoSetter :: "ContextObject \<Rightarrow> bool" where
  "reachesProtoSetter obj \<longleftrightarrow>
     own obj ''__proto__'' = None
     \<and> (case proto obj of
          ObjectPrototype \<Rightarrow> True
        | NoPrototype \<Rightarrow> False
        | PlainObject p \<Rightarrow> fmlookup p ''__proto__'' = None)"

definition assignProperty :: "ContextObject \<Rightarrow> string \<Rightarrow> jsval \<Rightarrow> ContextObject" where
  "assignProperty obj key v =
     (if key = ''__proto__'' \<and> reachesProtoSetter obj
      then (case v of
              JObj p \<Rightarrow> obj\<lparr> proto := PlainObject p \<rparr>
            | JNull \<Rightarrow> obj\<lparr> proto := NoPrototype \<rparr>
            | _ \<Rightarrow> obj)
      else obj\<lparr> own := (own obj)(key \<mapsto> v) \<rparr>)"

text \<open>
  The read \<^verbatim>\<open>obj[key]\<close>, for a name that \<^verbatim>\<open>Object.prototype\<close> itself does not
  define: the own property, else the property of a plain object that is the prototype,
  else \<^verbatim>\<open>undefined\<close>.
\<close>

definition readProperty :: "ContextObject \<Rightarrow> string \<Rightarrow> jsval" where
  "readProperty obj key =
     (case own obj key of
        Some v \<Rightarrow> v
      | None \<Rightarrow> (case proto obj of PlainObject p \<Rightarrow> getProp p key | _ \<Rightarrow> JUndefined))"

text \<open>
  A context object is passed by reference and mutated in place by the \<^verbatim>\<open>next\<close>
  continuation, so context objects live in a store indexed by reference. Everything else
  a handler may do to the outside (logging, I/O) is a change of the \<open>world\<close> component.
  Handlers are state-passing functions; asynchronous handlers are modelled by their
  sequential effect, and exceptions thrown by user-written handlers are outside the model.
\<close>

type_synonym ref = nat

record 'w KState =
  contexts :: "ref \<Rightarrow> ContextObject"
  world :: 'w

type_synonym KintRequest = jsval
type_synonym KintResponse = jsval

type_synonym 'w NextFunction = "jsval \<Rightarrow> 'w KState \<Rightarrow> KintResponse \<times> 'w KState"

type_synonym 'w ConfigurableHandler =
  "KintRequest \<Rightarrow> ref \<Rightarrow> jsobj \<Rightarrow> 'w KState \<Rightarrow> KintResponse \<times> 'w KState"

record 'w Middleware =
  name :: string
  handler :: "KintRequest \<Rightarrow> 'w NextFunction \<Rightarrow> jsval \<Rightarrow> 'w KState \<Rightarrow> KintResponse \<times> 'w KState"

record 'w HandlerBuilder =
  buildConfigurableHandler :: "'w ConfigurableHandler \<Rightarrow> 'w ConfigurableHandler"

record 'w Kint =
  defaultConfig :: jsobj
  handlerBuilder :: "'w HandlerBuilder"

subsection \<open>Kint.new\<close>

definition Kint_new :: "'w Kint" where
  "Kint_new =
     \<lparr> defaultConfig = fmempty,
       handlerBuilder = \<lparr> buildConfigurableHandler = (\<lambda>innerHandler. innerHandler) \<rparr> \<rparr>"

subsection \<open>addMiddleware\<close>

text \<open>The statement \<^verbatim>\<open>if (extension) context[middleware.name] = extension\<close>.
  Calling \<^verbatim>\<open>next()\<close> without an argument binds \<^verbatim>\<open>extension\<close> to \<^verbatim>\<open>undefined\<close>.\<close>

definition assignIfTruthy :: "ref \<Rightarrow> string \<Rightarrow> jsval \<Rightarrow> 'w KState \<Rightarrow> 'w KState" where
  "assignIfTruthy context key extension s =
     (if truthy extension
      then s\<lparr> contexts :=
               (contexts s)(context := assignProperty (contexts s context) key extension) \<rparr>
      else s)"

text \<open>
  The value held by the new chain. The arrow function of the source reads
  \<^verbatim>\<open>this.handlerBuilder\<close> when a handler is built; the field is private and assigned
  only by the constructor, so it is read here when the middleware is added.
\<close>

definition addMiddleware :: "'w Kint \<Rightarrow> 'w Middleware \<Rightarrow> 'w Kint" where
  "addMiddleware this middleware =
     (let newHandlerBuilder =
        \<lparr> buildConfigurableHandler = (\<lambda>innermostHandler.
            let wrappedInnerHandler =
                  buildConfigurableHandler (handlerBuilder this) innermostHandler
            in (\<lambda>request context config.
                  handler middleware request
                    (\<lambda>extension s.
                       wrappedInnerHandler request context config
                         (assignIfTruthy context (name middleware) extension s))
                    (getProp config (name middleware)))) \<rparr>
      in \<lparr> defaultConfig = defaultConfig this, handlerBuilder = newHandlerBuilder \<rparr>)"

subsection \<open>extendConfig and setConfig\<close>

text \<open>
  Modelled from the spec: \<^verbatim>\<open>extendObject\<close> (utils/extendObject) is not among the
  sources. The spec calls the result of \<^verbatim>\<open>extendConfig\<close> "a merged default
  configuration (immutable update)": a new object holding the keys of both, the
  extension's value where both have the key.
\<close>

definition extendObject :: "jsobj \<Rightarrow> jsobj \<Rightarrow> jsobj" where
  "extendObject obj extension = obj ++\<^sub>f extension"

text \<open>
  Modelled from the spec: \<^verbatim>\<open>getFromFnOrValue\<close> (utils/getFromFnOrValue) is not among
  the sources. \<^verbatim>\<open>setConfig\<close> "accepts either a literal override or a function of the
  current default config".
\<close>

datatype 'a MaybeFunction = Value 'a | Function "jsobj \<Rightarrow> 'a"

fun getFromFnOrValue :: "'a MaybeFunction \<Rightarrow> jsobj \<Rightarrow> 'a" where
  "getFromFnOrValue (Function f) arg = f arg"
| "getFromFnOrValue (Value v) arg = v"

definition extendConfig :: "'w Kint \<Rightarrow> jsobj \<Rightarrow> 'w Kint" where
  "extendConfig this extension =
     \<lparr> defaultConfig = extendObject (defaultConfig this) extension,
       handlerBuilder = handlerBuilder this \<rparr>"

definition setConfig :: "'w Kint \<Rightarrow> jsobj MaybeFunction \<Rightarrow> 'w Kint" where
  "setConfig this newConfig =
     (let resolvedNewConfig = getFromFnOrValue newConfig (defaultConfig this)
      in \<lparr> defaultConfig = resolvedNewConfig, handlerBuilder = handlerBuilder this \<rparr>)"

subsection \<open>Chains as objects\<close>

text \<open>
  The definitions above give the fields of the chain each method passes to
  \<^verbatim>\<open>new Kint(...)\<close>. Here the chains are objects in a store: a reference is an index,
  the constructor appends the new object, and a method call takes the reference of its
  receiver. A call completes with an error or with the reference of the new chain and the
  store after the call; none of the three methods has a \<^verbatim>\<open>throw\<close>. Configuration
  objects are values here: no statement of the class assigns to a property of one, and a
  function given to \<^verbatim>\<open>setConfig\<close> is taken to be pure.
\<close>

type_synonym 'w KintHeap = "'w Kint list"

datatype JsError = Error string | TypeError string

definition new_Kint :: "'w Kint \<Rightarrow> 'w KintHeap \<Rightarrow> ref \<times> 'w KintHeap" where
  "new_Kint obj heap = (length heap, heap @ [obj])"

definition extendConfig_call ::
  "ref \<Rightarrow> jsobj \<Rightarrow> 'w KintHeap \<Rightarrow> JsError + ref \<times> 'w KintHeap" where
  "extendConfig_call this extension heap =
     Inr (new_Kint (extendConfig (heap ! this) extension) heap)"

definition addMiddleware_call ::
  "ref \<Rightarrow> 'w Middleware \<Rightarrow> 'w KintHeap \<Rightarrow> JsError + ref \<times> 'w KintHeap" where
  "addMiddleware_call this middleware heap =
     Inr (new_Kint (addMiddleware (heap ! this) middleware) heap)"

definition setConfig_call ::
  "ref \<Rightarrow> jsobj MaybeFunction \<Rightarrow> 'w KintHeap \<Rightarrow> JsError + ref \<times> 'w KintHeap" where
  "setConfig_call this newConfig heap =
     Inr (new_Kint (setConfig (heap ! this) newConfig) heap)"

subsection \<open>defineEndpoint and the configuration merge\<close>

lemma size_fmlookup_less:
  assumes "fmlookup d k = Some v"
  shows "size v < size (JObj d)"
proof -
  let ?S = "fset (fset_of_fmap d)"
  let ?f = "\<lambda>x. Suc (case x of (a, b) \<Rightarrow> size b)"
  have mem: "(k, v) \<in> ?S"
    using assms by (simp add: fset_of_fmap_iff')
  have "?f (k, v) \<le> sum ?f ?S"
    by (rule member_le_sum [OF mem]) simp_all
  then show ?thesis by simp
qed

text \<open>
  Modelled from the spec: \<^verbatim>\<open>mergeDefaultWithMissingItems\<close>
  (utils/mergeDefaultWithMissingItems) is not among the sources. The spec: the merged
  configuration is "produced by deep-merging endpoint-supplied values onto the default,
  filling only keys absent from the endpoint's override (never overwriting an explicit
  endpoint value)". Every key of the override keeps the override's value, except that
  where both sides hold an object the two objects are merged in the same way; every key
  the override lacks is filled from the default.
\<close>

function mergeDefaultWithMissingItems :: "jsobj \<Rightarrow> jsobj \<Rightarrow> jsobj" where
  "mergeDefaultWithMissingItems defaultObject missingItems =
     defaultObject ++\<^sub>f
       fmmap_keys (\<lambda>key item.
           case fmlookup defaultObject key of
             Some (JObj d) \<Rightarrow>
               (case item of JObj m \<Rightarrow> JObj (mergeDefaultWithMissingItems d m) | _ \<Rightarrow> item)
           | _ \<Rightarrow> item)
         missingItems"
  by pat_completeness auto
termination
proof (relation "measure (\<lambda>(d, m). size (JObj d))")
  show "wf (measure (\<lambda>(d, m). size (JObj d)))" by simp
next
  fix defaultObject missingItems :: jsobj and key :: string and item x2 :: jsval
    and d m :: jsobj
  assume "fmlookup defaultObject key = Some x2" and "x2 = JObj d"
  then have "size (JObj d) < size (JObj defaultObject)"
    using size_fmlookup_less by blast
  then show "((d, m), defaultObject, missingItems) \<in> measure (\<lambda>(d, m). size (JObj d))"
    by simp
qed

declare mergeDefaultWithMissingItems.simps [simp del]

record 'w KintEndpointMeta =
  config :: jsobj
  handler_meta :: "KintRequest \<Rightarrow> ref \<Rightarrow> 'w KState \<Rightarrow> KintResponse \<times> 'w KState"
  data_meta :: string

record 'w KintExport =
  builtByKint :: bool
  data :: "'w KintEndpointMeta"

text \<open>
  \<^verbatim>\<open>extractParts\<close> and \<^verbatim>\<open>wrapHandlerWithValidationLayer\<close> are not among the sources:
  \<open>defineEndpoint\<close> takes the extracted configuration, and the handler already wrapped
  with its validators.
\<close>

definition defineEndpoint ::
  "'w Kint \<Rightarrow> jsobj \<Rightarrow> 'w ConfigurableHandler \<Rightarrow> 'w KintExport" where
  "defineEndpoint this cfg validatedHandler =
     (let mergedConfig = mergeDefaultWithMissingItems (defaultConfig this) cfg;
          handlerWithMiddleware =
            buildConfigurableHandler (handlerBuilder this) validatedHandler
      in \<lparr> builtByKint = True,
           data = \<lparr> config = mergedConfig,
                    handler_meta = (\<lambda>request context.
                       handlerWithMiddleware request context mergedConfig),
                    data_meta = ''KintEndpointMeta'' \<rparr> \<rparr>)"

subsection \<open>Observers\<close>

text \<open>Compiling a chain against an innermost handler.\<close>

definition compile :: "'w Kint \<Rightarrow> 'w ConfigurableHandler \<Rightarrow> 'w ConfigurableHandler" where
  "compile k innermostHandler = buildConfigurableHandler (handlerBuilder k) innermostHandler"

text \<open>A middleware that records its name in the observation log and then calls
  \<^verbatim>\<open>next(ext)\<close>, and an innermost handler that records a label and responds.\<close>

definition announcing :: "string \<Rightarrow> jsval \<Rightarrow> (string list) Middleware" where
  "announcing n ext =
     \<lparr> name = n,
       handler = (\<lambda>request next cfg s. next ext (s\<lparr> world := world s @ [n] \<rparr>)) \<rparr>"

definition announcingHandler :: "string \<Rightarrow> KintResponse \<Rightarrow> (string list) ConfigurableHandler" where
  "announcingHandler label response =
     (\<lambda>request context config s. (response, s\<lparr> world := world s @ [label] \<rparr>))"

text \<open>An innermost handler that answers with what it reads from the context under a
  name.\<close>

definition readingHandler :: "string \<Rightarrow> 'w ConfigurableHandler" where
  "readingHandler key =
     (\<lambda>request context config s. (readProperty (contexts s context) key, s))"

text \<open>A middleware that does nothing but call \<^verbatim>\<open>next(ext)\<close>.\<close>

definition callsNext :: "string \<Rightarrow> jsval \<Rightarrow> 'w Middleware" where
  "callsNext n ext = \<lparr> name = n, handler = (\<lambda>request next cfg. next ext) \<rparr>"

section \<open>The route tree (src/RouteTreeNode.ts)\<close>

subsection \<open>Schemas, endpoints and the Express request\<close>

datatype Method = GET | PUT | POST | DELETE | PATCH

text \<open>
  The result of \<^verbatim>\<open>parseSchemaDefinition\<close>: \<^verbatim>\<open>{success: true, data}\<close> or
  \<^verbatim>\<open>{success: false, error: {message}}\<close>.
\<close>

datatype ParseResult = Success jsval | Failure string

text \<open>
  \<^verbatim>\<open>parseSchemaDefinition\<close>, \<^verbatim>\<open>toZodObject\<close> and \<^verbatim>\<open>zodKeys\<close> wrap the schema library
  and are not among the sources. A schema definition is modelled by the two things the
  source asks of it: the keys \<^verbatim>\<open>zodKeys(toZodObject(def))\<close> enumerates, and the result
  of \<^verbatim>\<open>parseSchemaDefinition(def, value)\<close>. Parsing may run user-written refinements
  and transforms, so it is a state-passing function on the outside world.
\<close>

record 'w SchemaDefinition =
  zodKeys :: "string list"
  parseSchemaDefinition :: "jsval \<Rightarrow> 'w \<Rightarrow> ParseResult \<times> 'w"

text \<open>The fields of the Express request the handler reads and assigns, the part of the
  response \<^verbatim>\<open>res.status(400).send(...)\<close> sets, and the state of one request.\<close>

record Request =
  body :: jsval
  query :: jsval
  params :: jsval

record Response =
  statusCode :: nat
  sent :: "string option"

record 'w ExState =
  req :: Request
  res :: Response
  outside :: 'w

record 'w EndpointDefinition =
  requestBody :: "'w SchemaDefinition option"
  queryParams :: "'w SchemaDefinition option"
  urlParams :: "'w SchemaDefinition option"

text \<open>An endpoint as this file uses it: \<^verbatim>\<open>endpoint.endpointDefinition\<close> and
  \<^verbatim>\<open>endpoint.handler(req, res, context)\<close>; \<^verbatim>\<open>req\<close> and \<^verbatim>\<open>res\<close> are the objects of the
  request state.\<close>

record ('c, 'w) Endpoint =
  endpointDefinition :: "'w EndpointDefinition"
  handler_endpoint :: "'c \<Rightarrow> 'w ExState \<Rightarrow> 'w ExState"

text \<open>
  The value of \<^verbatim>\<open>require(moduleName)?.default\<close>: \<^verbatim>\<open>undefined\<close> or \<^verbatim>\<open>null\<close> (the
  module has no default export), or any other value, given by the value of its
  \<^verbatim>\<open>builtByKint\<close> property (\<^verbatim>\<open>undefined\<close> when it has none) and by what the value is
  when read as an endpoint. \<^verbatim>\<open>isKintEndpoint\<close> reads \<^verbatim>\<open>test.builtByKint\<close>, which
  raises a TypeError on \<^verbatim>\<open>undefined\<close> and \<^verbatim>\<open>null\<close>; the error carries the name of the
  property read.
\<close>

datatype ('c, 'w) ModuleDefault =
    Nullish
  | Exported jsval "('c, 'w) Endpoint"

fun isKintEndpoint :: "('c, 'w) ModuleDefault \<Rightarrow> JsError + bool" where
  "isKintEndpoint Nullish = Inl (TypeError ''builtByKint'')"
| "isKintEndpoint (Exported marker e) = Inr (marker = JBool True)"

subsection \<open>The directory and the tree\<close>

text \<open>
  The routes directory as \<^verbatim>\<open>readdirSync\<close> and \<^verbatim>\<open>statSync\<close> show it: entries in
  directory order, each a directory with its entries or a file with what loading it as a
  module gives. The \<^verbatim>\<open>parent\<close> reference of a node is modelled by the list of the
  (name, isUrlParam) pairs of its ancestors, nearest first.
\<close>

datatype ('c, 'w) FsEntry =
    Directory string "('c, 'w) FsEntry list"
  | RegularFile string "('c, 'w) ModuleDefault"

datatype ('c, 'w) RouteTreeNode =
  RouteTreeNode (name_node: string) (isUrlParam: bool)
    (resource: "Method \<rightharpoonup> ('c, 'w) Endpoint")
    (subRoutes: "('c, 'w) RouteTreeNode list")

type_synonym Ancestors = "(string \<times> bool) list"

text \<open>\<^verbatim>\<open>\w\<close>, and the match of \<^verbatim>\<open>/^\[(\w+)\]$/\<close>: the captured group, if any.\<close>

definition wordChar :: "char \<Rightarrow> bool" where
  "wordChar c \<longleftrightarrow>
     c \<in> set ''ABCDEFGHIJKLMNOPQRSTUVWXYZabcdefghijklmnopqrstuvwxyz0123456789_''"

definition urlParamMatch :: "string \<Rightarrow> string option" where
  "urlParamMatch directoryName =
     (case directoryName of
        [] \<Rightarrow> None
      | c # rest \<Rightarrow>
          if c = CHR ''['' \<and> rest \<noteq> [] \<and> last rest = CHR '']''
             \<and> butlast rest \<noteq> [] \<and> list_all wordChar (butlast rest)
          then Some (butlast rest) else None)"

text \<open>The match of \<^verbatim>\<open>/^(PUT|POST|GET|DELETE|PATCH)\.(ts|js)$/\<close>.\<close>

definition httpMethodMatch :: "string \<Rightarrow> Method option" where
  "httpMethodMatch fileName =
     map_of [(''PUT.ts'', PUT), (''PUT.js'', PUT), (''POST.ts'', POST), (''POST.js'', POST),
             (''GET.ts'', GET), (''GET.js'', GET), (''DELETE.ts'', DELETE),
             (''DELETE.js'', DELETE), (''PATCH.ts'', PATCH), (''PATCH.js'', PATCH)] fileName"

text \<open>
  \<^verbatim>\<open>path.join\<close> (POSIX) on the arguments the traversal gives it: the relative path of a
  directory, which is \<^verbatim>\<open>./\<close> at the root, and an entry name, which has no separator
  and is neither \<^verbatim>\<open>.\<close> nor \<^verbatim>\<open>..\<close>.
\<close>

definition path_join :: "string \<Rightarrow> string \<Rightarrow> string" where
  "path_join relativePath fileName =
     (if relativePath = ''./'' then fileName else relativePath @ ''/'' @ fileName)"

definition createSubRoute :: "string \<Rightarrow> ('c, 'w) RouteTreeNode" where
  "createSubRoute directoryName =
     (case urlParamMatch directoryName of
        Some routeName \<Rightarrow> RouteTreeNode routeName True Map.empty []
      | None \<Rightarrow> RouteTreeNode directoryName False Map.empty [])"

text \<open>\<^verbatim>\<open>getAllUrlParams\<close> on a node whose (name, isUrlParam) heads the list, its
  ancestors following.\<close>

fun getAllUrlParams :: "Ancestors \<Rightarrow> string list" where
  "getAllUrlParams [] = []"
| "getAllUrlParams ((n, isParam) # parents) =
     (if isParam then n # getAllUrlParams parents else getAllUrlParams parents)"

definition notKintEndpointMessage :: "string \<Rightarrow> string" where
  "notKintEndpointMessage relativePathToCurrentFile =
     ''Endpoint at route '' @ relativePathToCurrentFile @ '' is not a Kint endpoint''"

definition missingUrlParamMessage :: "string \<Rightarrow> string \<Rightarrow> string" where
  "missingUrlParamMessage relativePathToCurrentFile urlParam =
     ''Endpoint at /'' @ relativePathToCurrentFile
       @ '' defines a URL parameter in it'' @ [CHR 0x27] @ ''s schema ('' @ urlParam
       @ '') that does not exist in the route path.''"

text \<open>The loop over the keys the endpoint's URL-parameter schema declares: the first
  key that is not a URL parameter of the route raises.\<close>

fun checkUrlParams :: "string list \<Rightarrow> string list \<Rightarrow> string \<Rightarrow> JsError option" where
  "checkUrlParams [] routeDefinedUrlParams relativePathToCurrentFile = None"
| "checkUrlParams (urlParam # others) routeDefinedUrlParams relativePathToCurrentFile =
     (if urlParam \<in> set routeDefinedUrlParams
      then checkUrlParams others routeDefinedUrlParams relativePathToCurrentFile
      else Some (Error (missingUrlParamMessage relativePathToCurrentFile urlParam)))"

text \<open>
  \<^verbatim>\<open>populateWithDirectoryContents\<close>, as the loop over the entries of the directory of
  \<open>this\<close>; the node is returned with the sub-routes and endpoints the loop has added,
  or the error that ended the traversal. Reading \<^verbatim>\<open>endpoint.endpointDefinition\<close> of
  \<^verbatim>\<open>undefined\<close> would raise too, but \<^verbatim>\<open>isKintEndpoint\<close> has raised before.
\<close>

fun populateWithDirectoryContents ::
  "Ancestors \<Rightarrow> string \<Rightarrow> ('c, 'w) FsEntry list \<Rightarrow> ('c, 'w) RouteTreeNode
     \<Rightarrow> JsError + ('c, 'w) RouteTreeNode" where
  "populateWithDirectoryContents parents relativePathToRoute [] this = Inr this"
| "populateWithDirectoryContents parents relativePathToRoute
       (Directory currentFileName contents # rest) this =
     (let relativePathToCurrentFile = path_join relativePathToRoute currentFileName;
          newRouteTreeNode = createSubRoute currentFileName
      in case populateWithDirectoryContents
                ((name_node this, isUrlParam this) # parents)
                relativePathToCurrentFile contents newRouteTreeNode of
           Inl err \<Rightarrow> Inl err
         | Inr populated \<Rightarrow>
             populateWithDirectoryContents parents relativePathToRoute rest
               (RouteTreeNode (name_node this) (isUrlParam this) (resource this)
                  (subRoutes this @ [populated])))"
| "populateWithDirectoryContents parents relativePathToRoute
       (RegularFile currentFileName loaded # rest) this =
     (let relativePathToCurrentFile = path_join relativePathToRoute currentFileName
      in case httpMethodMatch currentFileName of
           None \<Rightarrow> populateWithDirectoryContents parents relativePathToRoute rest this
         | Some method \<Rightarrow>
             (case isKintEndpoint loaded of
                Inl err \<Rightarrow> Inl err
              | Inr False \<Rightarrow> Inl (Error (notKintEndpointMessage relativePathToCurrentFile))
              | Inr True \<Rightarrow>
                  (case loaded of
                     Nullish \<Rightarrow> Inl (TypeError ''endpointDefinition'')
                   | Exported marker endpoint \<Rightarrow>
                       (case (case urlParams (endpointDefinition endpoint) of
                                None \<Rightarrow> None
                              | Some schemaDef \<Rightarrow>
                                  checkUrlParams (zodKeys schemaDef)
                                    (getAllUrlParams ((name_node this, isUrlParam this) # parents))
                                    relativePathToCurrentFile) of
                          Some err \<Rightarrow> Inl err
                        | None \<Rightarrow>
                            populateWithDirectoryContents parents relativePathToRoute rest
                              (RouteTreeNode (name_node this) (isUrlParam this)
                                 ((resource this)(method \<mapsto> endpoint))
                                 (subRoutes this))))))"

definition fromDirectory :: "('c, 'w) FsEntry list \<Rightarrow> JsError + ('c, 'w) RouteTreeNode" where
  "fromDirectory directory =
     populateWithDirectoryContents [] ''./'' directory (RouteTreeNode ''root'' False Map.empty [])"

subsection \<open>The per-node request handler\<close>

text \<open>\<^verbatim>\<open>res.status(400).send('Bad request: ' + message)\<close>.\<close>

definition send400 :: "string \<Rightarrow> Response \<Rightarrow> Response" where
  "send400 message r = r\<lparr> statusCode := 400, sent := Some (''Bad request: '' @ message) \<rparr>"

text \<open>
  \<^verbatim>\<open>def ?? {}\<close>. What \<^verbatim>\<open>parseSchemaDefinition\<close> does with the empty definition
  \<^verbatim>\<open>{}\<close> is not in the sources, so the empty definition is a parameter.
\<close>

definition orEmpty :: "'w SchemaDefinition \<Rightarrow> 'w SchemaDefinition option \<Rightarrow> 'w SchemaDefinition" where
  "orEmpty emptyDefinition declared =
     (case declared of Some schemaDef \<Rightarrow> schemaDef | None \<Rightarrow> emptyDefinition)"

text \<open>The handler \<^verbatim>\<open>createHandlerFromEndpoint\<close> returns, run with the continuation
  \<^verbatim>\<open>next\<close> on the state of a request.\<close>

definition createHandlerFromEndpoint ::
  "'w SchemaDefinition \<Rightarrow> ('c, 'w) Endpoint \<Rightarrow> 'c
     \<Rightarrow> ('w ExState \<Rightarrow> 'w ExState) \<Rightarrow> 'w ExState \<Rightarrow> 'w ExState" where
  "createHandlerFromEndpoint emptyDefinition endpoint context next s0 =
     (case parseSchemaDefinition
             (orEmpty emptyDefinition (requestBody (endpointDefinition endpoint)))
             (body (req s0)) (outside s0) of
        (Failure message, w1) \<Rightarrow>
          s0\<lparr> res := send400 message (res s0), outside := w1 \<rparr>
      | (Success parsedBody, w1) \<Rightarrow>
          (let s1 = s0\<lparr> req := (req s0)\<lparr> body := parsedBody \<rparr>, outside := w1 \<rparr>
           in case parseSchemaDefinition
                     (orEmpty emptyDefinition (queryParams (endpointDefinition endpoint)))
                     (query (req s1)) (outside s1) of
                (Failure message, w2) \<Rightarrow>
                  s1\<lparr> res := send400 message (res s1), outside := w2 \<rparr>
              | (Success parsedQueryParams, w2) \<Rightarrow>
                  (let s2 = s1\<lparr> req := (req s1)\<lparr> query := parsedQueryParams \<rparr>,
                                outside := w2 \<rparr>
                   in case parseSchemaDefinition
                             (orEmpty emptyDefinition (urlParams (endpointDefinition endpoint)))
                             (params (req s2)) (outside s2) of
                        (Failure message, w3) \<Rightarrow>
                          s2\<lparr> res := send400 message (res s2), outside := w3 \<rparr>
                      | (Success parsedUrlParams, w3) \<Rightarrow>
                          (let s3 = s2\<lparr> req := (req s2)\<lparr> params := parsedUrlParams \<rparr>,
                                        outside := w3 \<rparr>
                           in next (handler_endpoint endpoint context s3)))))"

subsection \<open>The method files of a directory, as the spec speaks of them\<close>

text \<open>
  Every method file below a directory, in traversal order, with its relative path, the
  chain of (name, isUrlParam) pairs from the node of its directory up to the root, and
  its default export.
\<close>

fun methodFiles ::
  "Ancestors \<Rightarrow> string \<Rightarrow> ('c, 'w) FsEntry list
     \<Rightarrow> (string \<times> Ancestors \<times> ('c, 'w) ModuleDefault) list" where
  "methodFiles chain relativePath [] = []"
| "methodFiles chain relativePath (Directory d contents # rest) =
     methodFiles ((name_node (createSubRoute d :: ('c, 'w) RouteTreeNode),
                   isUrlParam (createSubRoute d :: ('c, 'w) RouteTreeNode)) # chain)
        (path_join relativePath d) contents
     @ methodFiles chain relativePath rest"
| "methodFiles chain relativePath (RegularFile f loaded # rest) =
     (case httpMethodMatch f of
        None \<Rightarrow> []
      | Some method \<Rightarrow> [(path_join relativePath f, chain, loaded)])
     @ methodFiles chain relativePath rest"

text \<open>A method file is accepted when its default export carries the marker and
  every key of its URL-parameter schema is the name of a URL-parameter node of its chain.\<close>

fun carriesMarker :: "('c, 'w) ModuleDefault \<Rightarrow> bool" where
  "carriesMarker Nullish = False"
| "carriesMarker (Exported marker endpoint) = (marker = JBool True)"

fun declaredUrlParams :: "('c, 'w) ModuleDefault \<Rightarrow> string list" where
  "declaredUrlParams Nullish = []"
| "declaredUrlParams (Exported marker endpoint) =
     (case urlParams (endpointDefinition endpoint) of
        None \<Rightarrow> []
      | Some schemaDef \<Rightarrow> zodKeys schemaDef)"

definition fileAccepted :: "string \<times> Ancestors \<times> ('c, 'w) ModuleDefault \<Rightarrow> bool" where
  "fileAccepted file =
     (case file of (path, chain, loaded) \<Rightarrow>
        carriesMarker loaded
        \<and> set (declaredUrlParams loaded) \<subseteq> set (getAllUrlParams chain))"

text \<open>The error a method file that is not accepted raises.\<close>

definition raisedBy :: "JsError \<Rightarrow> string \<times> Ancestors \<times> ('c, 'w) ModuleDefault \<Rightarrow> bool" where
  "raisedBy e file =
     (case file of (path, chain, loaded) \<Rightarrow>
        (case loaded of
           Nullish \<Rightarrow> e = TypeError ''builtByKint''
         | Exported marker endpoint \<Rightarrow>
             if marker = JBool True
             then (case find (\<lambda>k. k \<notin> set (getAllUrlParams chain)) (declaredUrlParams loaded) of
                     None \<Rightarrow> False
                   | Some k \<Rightarrow> e = Error (missingUrlParamMessage path k))
             else e = Error (notKintEndpointMessage path)))"

subsection \<open>Examples\<close>

text \<open>The tree \<^verbatim>\<open>/users/[id]/POST\<close> with an endpoint that declares the given
  URL-parameter keys.\<close>

definition exampleEndpoint :: "string list \<Rightarrow> (unit, unit) Endpoint" where
  "exampleEndpoint keys =
     \<lparr> endpointDefinition =
         \<lparr> requestBody = None, queryParams = None,
           urlParams = Some \<lparr> zodKeys = keys,
                              parseSchemaDefinition = (\<lambda>v w. (Success v, w)) \<rparr> \<rparr>,
       handler_endpoint = (\<lambda>c s. s) \<rparr>"

definition usersIdPost :: "string list \<Rightarrow> (unit, unit) FsEntry list" where
  "usersIdPost keys =
     [Directory ''users''
        [Directory ''[id]''
           [RegularFile ''POST.ts'' (Exported (JBool True) (exampleEndpoint keys))]]]"

text \<open>A schema that logs its label and succeeds or fails as told, an endpoint of
  three such schemas whose handler logs and answers 200, and a request.\<close>

definition loggingSchema :: "string \<Rightarrow> bool \<Rightarrow> (string list) SchemaDefinition" where
  "loggingSchema label ok =
     \<lparr> zodKeys = [],
       parseSchemaDefinition = (\<lambda>v w.
          (if ok then Success (JObj (fmap_of_list [(label, v)]))
           else Failure (label @ '' is invalid''),
           w @ [label])) \<rparr>"

definition loggingEndpoint :: "bool \<Rightarrow> bool \<Rightarrow> bool \<Rightarrow> (unit, string list) Endpoint" where
  "loggingEndpoint bodyOk queryOk paramsOk =
     \<lparr> endpointDefinition =
         \<lparr> requestBody = Some (loggingSchema ''body'' bodyOk),
           queryParams = Some (loggingSchema ''query'' queryOk),
           urlParams = Some (loggingSchema ''params'' paramsOk) \<rparr>,
       handler_endpoint = (\<lambda>c s.
          s\<lparr> res := \<lparr> statusCode = 200, sent = Some ''done'' \<rparr>,
             outside := outside s @ [''handler''] \<rparr>) \<rparr>"

definition incoming :: "(string list) ExState" where
  "incoming =
     \<lparr> req = \<lparr> body = JStr ''b'', query = JStr ''q'', params = JStr ''p'' \<rparr>,
       res = \<lparr> statusCode = 200, sent = None \<rparr>,
       outside = [] \<rparr>"

section \<open>Properties of the composition engine\<close>

lemma compile_new: "compile Kint_new H = H"
  by (simp add: compile_def Kint_new_def)

lemma compile_addMiddleware:
  "compile (addMiddleware k m) H =
     (\<lambda>request context config.
        handler m request
          (\<lambda>extension s. compile k H request context config
                            (assignIfTruthy context (name m) extension s))
          (getProp config (name m)))"
  by (simp add: compile_def addMiddleware_def Let_def)

text \<open>
  C9. The chain produced by \<^verbatim>\<open>Kint.new\<close> compiles every innermost handler to itself:
  the built handler is the given handler, so both give the same result on every request,
  context, configuration and state.
\<close>

theorem C9_new_chain_is_identity:
  "buildConfigurableHandler (handlerBuilder Kint_new) H = H
   \<and> buildConfigurableHandler (handlerBuilder Kint_new) H request context cfg s
       = H request context cfg s"
  by (simp add: Kint_new_def)

lemma world_assignIfTruthy: "world (assignIfTruthy c n x s) = world s"
  by (simp add: assignIfTruthy_def)

text \<open>A chain of announcing middleware of any length logs the names in the reverse of
  the order in which they were added, then the innermost handler.\<close>

lemma announcing_chain_runs_in_reverse:
  "fst (compile (foldl addMiddleware Kint_new (map (\<lambda>(n, x). announcing n x) ms))
       (announcingHandler h response) rq c g s) = response
   \<and> world (snd (compile (foldl addMiddleware Kint_new (map (\<lambda>(n, x). announcing n x) ms))
       (announcingHandler h response) rq c g s))
     = world s @ rev (map fst ms) @ [h]"
proof (induction ms arbitrary: s rule: rev_induct)
  case Nil
  show ?case by (simp add: compile_new announcingHandler_def)
next
  case (snoc m ms)
  obtain n x where m: "m = (n, x)" by (cases m)
  have step: "compile (foldl addMiddleware Kint_new (map (\<lambda>(n, x). announcing n x) (ms @ [m])))
                (announcingHandler h response) rq c g s
              = compile (foldl addMiddleware Kint_new (map (\<lambda>(n, x). announcing n x) ms))
                  (announcingHandler h response) rq c g
                  (assignIfTruthy c n x (s\<lparr> world := world s @ [n] \<rparr>))"
    by (simp add: m compile_addMiddleware announcing_def)
  show ?case
    unfolding step using snoc.IH [of "assignIfTruthy c n x (s\<lparr> world := world s @ [n] \<rparr>)"]
    by (simp add: world_assignIfTruthy m)
qed

text \<open>
  C1. A chain built from a fresh Kint by adding M1, then M2, then M3 and compiled against
  an innermost handler H is M3's handler, whose \<^verbatim>\<open>next\<close> runs M2's handler, whose
  \<^verbatim>\<open>next\<close> runs M1's handler, whose \<^verbatim>\<open>next\<close> runs H: execution order is the reverse of
  declaration order. For middleware that log their name and call \<^verbatim>\<open>next\<close>, the
  observation log reads M3, M2, M1, H; for a chain of any number of them it reads the
  names in the reverse of the order of addition, then H.
\<close>

theorem C1_execution_order:
  "buildConfigurableHandler
       (handlerBuilder (addMiddleware (addMiddleware (addMiddleware Kint_new M1) M2) M3))
       H request ctx cfg
     = handler M3 request
         (\<lambda>e3 s3. handler M2 request
            (\<lambda>e2 s2. handler M1 request
               (\<lambda>e1 s1. H request ctx cfg (assignIfTruthy ctx (name M1) e1 s1))
               (getProp cfg (name M1))
               (assignIfTruthy ctx (name M2) e2 s2))
            (getProp cfg (name M2))
            (assignIfTruthy ctx (name M3) e3 s3))
         (getProp cfg (name M3))
   \<and> world (snd (buildConfigurableHandler
         (handlerBuilder (addMiddleware (addMiddleware (addMiddleware Kint_new
             (announcing n1 x1)) (announcing n2 x2)) (announcing n3 x3)))
         (announcingHandler h response) rq c g s))
     = world s @ [n3, n2, n1, h]
   \<and> fst (buildConfigurableHandler
         (handlerBuilder (addMiddleware (addMiddleware (addMiddleware Kint_new
             (announcing n1 x1)) (announcing n2 x2)) (announcing n3 x3)))
         (announcingHandler h response) rq c g s)
     = response
   \<and> world (snd (buildConfigurableHandler
         (handlerBuilder (foldl addMiddleware Kint_new (map (\<lambda>(n, x). announcing n x) ms)))
         (announcingHandler h response) rq c g s))
     = world s @ rev (map fst ms) @ [h]"
proof (intro conjI)
  show "buildConfigurableHandler
       (handlerBuilder (addMiddleware (addMiddleware (addMiddleware Kint_new M1) M2) M3))
       H request ctx cfg
     = handler M3 request
         (\<lambda>e3 s3. handler M2 request
            (\<lambda>e2 s2. handler M1 request
               (\<lambda>e1 s1. H request ctx cfg (assignIfTruthy ctx (name M1) e1 s1))
               (getProp cfg (name M1))
               (assignIfTruthy ctx (name M2) e2 s2))
            (getProp cfg (name M2))
            (assignIfTruthy ctx (name M3) e3 s3))
         (getProp cfg (name M3))"
    using compile_addMiddleware [of "addMiddleware (addMiddleware Kint_new M1) M2" M3 H]
      compile_addMiddleware [of "addMiddleware Kint_new M1" M2 H]
      compile_addMiddleware [of Kint_new M1 H] compile_new [of H]
    by (simp add: compile_def)
next
  have three: "foldl addMiddleware Kint_new
                 (map (\<lambda>(n, x). announcing n x) [(n1, x1), (n2, x2), (n3, x3)])
               = addMiddleware (addMiddleware (addMiddleware Kint_new
                   (announcing n1 x1)) (announcing n2 x2)) (announcing n3 x3)"
    by simp
  note order = announcing_chain_runs_in_reverse
      [of "[(n1, x1), (n2, x2), (n3, x3)]" h response rq c g s, unfolded three compile_def]
  from order show "world (snd (buildConfigurableHandler
         (handlerBuilder (addMiddleware (addMiddleware (addMiddleware Kint_new
             (announcing n1 x1)) (announcing n2 x2)) (announcing n3 x3)))
         (announcingHandler h response) rq c g s))
     = world s @ [n3, n2, n1, h]"
    by simp
  from order show "fst (buildConfigurableHandler
         (handlerBuilder (addMiddleware (addMiddleware (addMiddleware Kint_new
             (announcing n1 x1)) (announcing n2 x2)) (announcing n3 x3)))
         (announcingHandler h response) rq c g s)
     = response"
    by simp
next
  show "world (snd (buildConfigurableHandler
         (handlerBuilder (foldl addMiddleware Kint_new (map (\<lambda>(n, x). announcing n x) ms)))
         (announcingHandler h response) rq c g s))
     = world s @ rev (map fst ms) @ [h]"
    using announcing_chain_runs_in_reverse [of ms h response rq c g s]
    by (simp add: compile_def)
qed

theorem C1_execution_order_witness:
  "world (snd (buildConfigurableHandler
         (handlerBuilder (addMiddleware (addMiddleware (addMiddleware Kint_new
             (announcing ''M1'' JUndefined)) (announcing ''M2'' (JNum 7)))
             (announcing ''M3'' (JStr ''user''))))
         (announcingHandler ''H'' (JStr ''ok'')) JNull 0 fmempty
         \<lparr> contexts = (\<lambda>_. emptyContext), world = [] \<rparr>))
     = [''M3'', ''M2'', ''M1'', ''H'']"
  using C1_execution_order [where ?n1.0 = "''M1''" and ?x1.0 = JUndefined and ?n2.0 = "''M2''"
      and ?x2.0 = "JNum 7" and ?n3.0 = "''M3''" and ?x3.0 = "JStr ''user''" and h = "''H''"
      and response = "JStr ''ok''" and rq = JNull and c = 0 and g = fmempty
      and s = "\<lparr> contexts = (\<lambda>_. emptyContext), world = [] \<rparr>", THEN conjunct2, THEN conjunct1]
  by simp

text \<open>
  C10, as stated for every middleware, fails at the name \<^verbatim>\<open>__proto__\<close>: there
  \<^verbatim>\<open>context[middleware.name] = extension\<close> runs the prototype setter, and with an
  object as extension the context afterwards reads another name, \<open>user\<close>, differently,
  although no own property was written.
\<close>

theorem C10_proto_name_replaces_prototype:
  "truthy (JObj (fmap_of_list [(''user'', JStr ''mallory'')]))
   \<and> readProperty (contexts \<lparr> contexts = (\<lambda>_. emptyContext), world = ([] :: string list) \<rparr> 0)
        ''user'' = JUndefined
   \<and> buildConfigurableHandler
        (handlerBuilder (addMiddleware Kint_new
           (callsNext ''__proto__'' (JObj (fmap_of_list [(''user'', JStr ''mallory'')])))))
        (readingHandler ''user'') JNull 0 fmempty
        \<lparr> contexts = (\<lambda>_. emptyContext), world = ([] :: string list) \<rparr>
     = (JStr ''mallory'',
        \<lparr> contexts = (\<lambda>_. emptyContext)
             (0 := \<lparr> own = Map.empty,
                     proto = PlainObject (fmap_of_list [(''user'', JStr ''mallory'')]) \<rparr>),
          world = [] \<rparr>)
   \<and> \<not> (\<forall>n ext key (s :: (string list) KState).
          key \<noteq> n \<longrightarrow>
          readProperty (contexts (assignIfTruthy 0 n ext s) 0) key
            = readProperty (contexts s 0) key)"
proof -
  let ?ext = "JObj (fmap_of_list [(''user'', JStr ''mallory'')])"
  let ?s = "\<lparr> contexts = (\<lambda>_. emptyContext), world = ([] :: string list) \<rparr>"
  have before: "readProperty (contexts ?s 0) ''user'' = JUndefined"
    by (simp add: readProperty_def emptyContext_def)
  have after: "readProperty (contexts (assignIfTruthy 0 ''__proto__'' ?ext ?s) 0) ''user''
               = JStr ''mallory''"
    by (simp add: assignIfTruthy_def assignProperty_def reachesProtoSetter_def
          readProperty_def emptyContext_def getProp_def)
  have run: "buildConfigurableHandler
        (handlerBuilder (addMiddleware Kint_new (callsNext ''__proto__'' ?ext)))
        (readingHandler ''user'') JNull 0 fmempty ?s
     = (JStr ''mallory'',
        \<lparr> contexts = (\<lambda>_. emptyContext)
             (0 := \<lparr> own = Map.empty,
                     proto = PlainObject (fmap_of_list [(''user'', JStr ''mallory'')]) \<rparr>),
          world = [] \<rparr>)"
    by (simp add: addMiddleware_def Let_def Kint_new_def callsNext_def readingHandler_def
          assignIfTruthy_def assignProperty_def reachesProtoSetter_def readProperty_def
          emptyContext_def getProp_def)
  have refuted: "\<not> (\<forall>n ext key (s :: (string list) KState).
          key \<noteq> n \<longrightarrow>
          readProperty (contexts (assignIfTruthy 0 n ext s) 0) key
            = readProperty (contexts s 0) key)"
  proof
    assume "\<forall>n ext key (s :: (string list) KState).
          key \<noteq> n \<longrightarrow>
          readProperty (contexts (assignIfTruthy 0 n ext s) 0) key
            = readProperty (contexts s 0) key"
    then have unchanged: "''user'' \<noteq> ''__proto__'' \<longrightarrow>
        readProperty (contexts (assignIfTruthy 0 ''__proto__'' ?ext ?s) 0) ''user''
          = readProperty (contexts ?s 0) ''user''"
      by (elim allE)
    have "''user'' \<noteq> ''__proto__''" by simp
    with unchanged have "readProperty (contexts (assignIfTruthy 0 ''__proto__'' ?ext ?s) 0) ''user''
          = readProperty (contexts ?s 0) ''user''"
      by (rule mp)
    then have "JStr ''mallory'' = JUndefined"
      unfolding before after .
    then show False by simp
  qed
  have obj: "truthy ?ext" by simp
  show ?thesis
    by (intro conjI) (rule obj, rule before, rule run, rule refuted)
qed

text \<open>
  C10, amended. For a middleware whose name is not \<^verbatim>\<open>__proto__\<close>, the \<^verbatim>\<open>next\<close>
  continuation it receives writes the middleware's own context slot when it is called
  with a truthy extension, and only then: called with no argument (\<^verbatim>\<open>undefined\<close>) or
  another falsy value it runs the inner handler on the unchanged state, and that for
  every name. No other own property, no prototype and no other context object is
  written, every other name reads as before, and nothing outside the context is touched.
\<close>

theorem C10_next_writes_only_own_slot:
  "buildConfigurableHandler (handlerBuilder (addMiddleware k m)) H request ctx cfg
     = handler m request
         (\<lambda>extension s.
            buildConfigurableHandler (handlerBuilder k) H request ctx cfg
              (assignIfTruthy ctx (name m) extension s))
         (getProp cfg (name m))
   \<and> buildConfigurableHandler (handlerBuilder (addMiddleware k (callsNext n ext))) H
         request ctx cfg s
     = buildConfigurableHandler (handlerBuilder k) H request ctx cfg
         (if truthy ext
          then s\<lparr> contexts := (contexts s)(ctx := assignProperty (contexts s ctx) n ext) \<rparr>
          else s)
   \<and> (\<not> truthy ext \<longrightarrow> assignIfTruthy ctx n ext s = s)
   \<and> (n \<noteq> ''__proto__'' \<and> truthy ext \<longrightarrow>
        contexts (assignIfTruthy ctx n ext s) ctx
          = (contexts s ctx)\<lparr> own := (own (contexts s ctx))(n \<mapsto> ext) \<rparr>
        \<and> readProperty (contexts (assignIfTruthy ctx n ext s) ctx) n = ext)
   \<and> (n \<noteq> ''__proto__'' \<and> (r \<noteq> ctx \<or> key \<noteq> n) \<longrightarrow>
        own (contexts (assignIfTruthy ctx n ext s) r) key = own (contexts s r) key
        \<and> proto (contexts (assignIfTruthy ctx n ext s) r) = proto (contexts s r)
        \<and> readProperty (contexts (assignIfTruthy ctx n ext s) r) key
            = readProperty (contexts s r) key)
   \<and> world (assignIfTruthy ctx n ext s) = world s
   \<and> \<not> truthy JUndefined \<and> \<not> truthy (JBool False) \<and> \<not> truthy (JNum 0)
   \<and> \<not> truthy (JStr [])"
proof (intro conjI impI)
  show "buildConfigurableHandler (handlerBuilder (addMiddleware k m)) H request ctx cfg
     = handler m request
         (\<lambda>extension s.
            buildConfigurableHandler (handlerBuilder k) H request ctx cfg
              (assignIfTruthy ctx (name m) extension s))
         (getProp cfg (name m))"
    by (simp add: addMiddleware_def Let_def)
next
  show "buildConfigurableHandler (handlerBuilder (addMiddleware k (callsNext n ext))) H
         request ctx cfg s
     = buildConfigurableHandler (handlerBuilder k) H request ctx cfg
         (if truthy ext
          then s\<lparr> contexts := (contexts s)(ctx := assignProperty (contexts s ctx) n ext) \<rparr>
          else s)"
    by (simp add: addMiddleware_def Let_def callsNext_def assignIfTruthy_def)
next
  assume "\<not> truthy ext"
  then show "assignIfTruthy ctx n ext s = s"
    by (simp add: assignIfTruthy_def)
next
  assume named: "n \<noteq> ''__proto__'' \<and> truthy ext"
  then show "contexts (assignIfTruthy ctx n ext s) ctx
          = (contexts s ctx)\<lparr> own := (own (contexts s ctx))(n \<mapsto> ext) \<rparr>"
    by (simp add: assignIfTruthy_def assignProperty_def)
  from named show "readProperty (contexts (assignIfTruthy ctx n ext s) ctx) n = ext"
    by (simp add: assignIfTruthy_def assignProperty_def readProperty_def)
next
  assume elsewhere: "n \<noteq> ''__proto__'' \<and> (r \<noteq> ctx \<or> key \<noteq> n)"
  then have same_own:
      "own (contexts (assignIfTruthy ctx n ext s) r) key = own (contexts s r) key"
    by (auto simp: assignIfTruthy_def assignProperty_def)
  from elsewhere have same_proto:
      "proto (contexts (assignIfTruthy ctx n ext s) r) = proto (contexts s r)"
    by (auto simp: assignIfTruthy_def assignProperty_def)
  from same_own
  show "own (contexts (assignIfTruthy ctx n ext s) r) key = own (contexts s r) key" .
  from same_proto
  show "proto (contexts (assignIfTruthy ctx n ext s) r) = proto (contexts s r)" .
  show "readProperty (contexts (assignIfTruthy ctx n ext s) r) key
            = readProperty (contexts s r) key"
    unfolding readProperty_def same_own same_proto ..
next
  show "world (assignIfTruthy ctx n ext s) = world s"
    by (simp add: assignIfTruthy_def)
qed simp_all

theorem C10_next_writes_only_own_slot_witness:
  "buildConfigurableHandler
       (handlerBuilder (addMiddleware Kint_new (callsNext ''auth'' (JNum 0))))
       (announcingHandler ''H'' (JStr ''ok'')) JNull 0 fmempty
       \<lparr> contexts = (\<lambda>_. emptyContext), world = [] \<rparr>
     = (JStr ''ok'', \<lparr> contexts = (\<lambda>_. emptyContext), world = [''H''] \<rparr>)
   \<and> buildConfigurableHandler
       (handlerBuilder (addMiddleware Kint_new (callsNext ''auth'' (JStr ''alice''))))
       (readingHandler ''auth'') JNull 0 fmempty
       \<lparr> contexts = (\<lambda>_. emptyContext), world = ([] :: string list) \<rparr>
     = (JStr ''alice'',
        \<lparr> contexts = (\<lambda>_. emptyContext)
             (0 := \<lparr> own = [''auth'' \<mapsto> JStr ''alice''], proto = ObjectPrototype \<rparr>),
          world = [] \<rparr>)
   \<and> assignIfTruthy 0 ''auth'' JUndefined
        \<lparr> contexts = (\<lambda>_. emptyContext), world = ([] :: string list) \<rparr>
     = \<lparr> contexts = (\<lambda>_. emptyContext), world = ([] :: string list) \<rparr>
   \<and> readProperty (contexts (assignIfTruthy 0 ''auth'' (JStr ''alice'')
         \<lparr> contexts = (\<lambda>_. \<lparr> own = [''log'' \<mapsto> JNum 5], proto = ObjectPrototype \<rparr>),
           world = ([] :: string list) \<rparr>) 0) ''auth''
     = JStr ''alice''
   \<and> readProperty (contexts (assignIfTruthy 0 ''auth'' (JStr ''alice'')
         \<lparr> contexts = (\<lambda>_. \<lparr> own = [''log'' \<mapsto> JNum 5], proto = ObjectPrototype \<rparr>),
           world = ([] :: string list) \<rparr>) 0) ''log''
     = JNum 5"
proof -
  let ?s = "\<lparr> contexts = (\<lambda>_. emptyContext), world = ([] :: string list) \<rparr>"
  let ?t = "\<lparr> contexts = (\<lambda>_. \<lparr> own = [''log'' \<mapsto> JNum 5], proto = ObjectPrototype \<rparr>),
              world = ([] :: string list) \<rparr>"
  note probe0 = C10_next_writes_only_own_slot [where k = Kint_new and n = "''auth''"
      and ext = "JNum 0" and H = "announcingHandler ''H'' (JStr ''ok'')" and request = JNull
      and ctx = 0 and cfg = fmempty and s = "?s", THEN conjunct2, THEN conjunct1]
  note probe1 = C10_next_writes_only_own_slot [where k = Kint_new and n = "''auth''"
      and ext = "JStr ''alice''" and H = "readingHandler ''auth''" and request = JNull
      and ctx = 0 and cfg = fmempty and s = "?s", THEN conjunct2, THEN conjunct1]
  note falsy = C10_next_writes_only_own_slot [where n = "''auth''" and ext = JUndefined
      and ctx = 0 and s = "?s", THEN conjunct2, THEN conjunct2, THEN conjunct1]
  note own_slot = C10_next_writes_only_own_slot [where n = "''auth''" and ext = "JStr ''alice''"
      and ctx = 0 and s = "?t",
      THEN conjunct2, THEN conjunct2, THEN conjunct2, THEN conjunct1]
  note others = C10_next_writes_only_own_slot [where n = "''auth''" and ext = "JStr ''alice''"
      and ctx = 0 and s = "?t" and r = 0 and key = "''log''",
      THEN conjunct2, THEN conjunct2, THEN conjunct2, THEN conjunct2, THEN conjunct1]
  have logged: "readProperty (contexts ?t 0) ''log'' = JNum 5"
    by (simp add: readProperty_def)
  show ?thesis
    using probe0 probe1 falsy own_slot others logged
    by (simp add: Kint_new_def announcingHandler_def readingHandler_def assignProperty_def
          emptyContext_def readProperty_def)
qed

text \<open>
  C7. \<^verbatim>\<open>extendConfig\<close>, \<^verbatim>\<open>addMiddleware\<close> and \<^verbatim>\<open>setConfig\<close> return a new chain
  (a fresh reference) and leave every existing chain, the receiver with its default
  configuration and handler builder included, as it was; so two chains derived from one
  base hold what each would hold had it been derived alone, and the base is unchanged.
\<close>

theorem C7_operations_leave_receiver_unchanged:
  assumes "this < length heap"
  shows
    "(\<exists>r heap'. extendConfig_call this extension heap = Inr (r, heap')
        \<and> r = length heap \<and> r \<noteq> this \<and> heap' = heap @ [extendConfig (heap ! this) extension]
        \<and> heap' ! this = heap ! this
        \<and> handlerBuilder (heap' ! r) = handlerBuilder (heap ! this))
   \<and> (\<exists>r heap'. addMiddleware_call this middleware heap = Inr (r, heap')
        \<and> r = length heap \<and> r \<noteq> this \<and> heap' = heap @ [addMiddleware (heap ! this) middleware]
        \<and> heap' ! this = heap ! this
        \<and> defaultConfig (heap' ! r) = defaultConfig (heap ! this))
   \<and> (\<exists>r heap'. setConfig_call this newConfig heap = Inr (r, heap')
        \<and> r = length heap \<and> r \<noteq> this \<and> heap' = heap @ [setConfig (heap ! this) newConfig]
        \<and> heap' ! this = heap ! this
        \<and> handlerBuilder (heap' ! r) = handlerBuilder (heap ! this))
   \<and> (\<exists>a heap1 b heap2.
          addMiddleware_call this m1 heap = Inr (a, heap1)
        \<and> addMiddleware_call this m2 heap1 = Inr (b, heap2)
        \<and> a \<noteq> b
        \<and> heap2 ! this = heap ! this
        \<and> heap2 ! a = addMiddleware (heap ! this) m1
        \<and> heap2 ! b = addMiddleware (heap ! this) m2)"
  using assms
  by (simp add: extendConfig_call_def addMiddleware_call_def setConfig_call_def new_Kint_def
        nth_append extendConfig_def addMiddleware_def setConfig_def Let_def)

theorem C7_operations_leave_receiver_unchanged_witness:
  "(\<exists>r heap'. extendConfig_call 0 (fmap_of_list [(''auth'', JBool True)])
          [Kint_new :: (string list) Kint] = Inr (r, heap')
        \<and> r \<noteq> 0 \<and> heap' ! 0 = Kint_new
        \<and> defaultConfig (heap' ! r) = fmap_of_list [(''auth'', JBool True)])
   \<and> (\<exists>a heap1 b heap2.
          addMiddleware_call 0 (announcing ''M1'' JUndefined) [Kint_new] = Inr (a, heap1)
        \<and> addMiddleware_call 0 (announcing ''M2'' JUndefined) heap1 = Inr (b, heap2)
        \<and> a \<noteq> b
        \<and> heap2 ! 0 = Kint_new
        \<and> heap2 ! a = addMiddleware Kint_new (announcing ''M1'' JUndefined)
        \<and> heap2 ! b = addMiddleware Kint_new (announcing ''M2'' JUndefined))"
proof -
  have inside: "0 < length [Kint_new :: (string list) Kint]" by simp
  note ext = C7_operations_leave_receiver_unchanged [OF inside,
      where extension = "fmap_of_list [(''auth'', JBool True)]", THEN conjunct1]
  note reuse = C7_operations_leave_receiver_unchanged [OF inside,
      where ?m1.0 = "announcing ''M1'' JUndefined" and ?m2.0 = "announcing ''M2'' JUndefined",
      THEN conjunct2, THEN conjunct2, THEN conjunct2]
  have cfg: "defaultConfig (extendConfig (Kint_new :: (string list) Kint)
               (fmap_of_list [(''auth'', JBool True)])) = fmap_of_list [(''auth'', JBool True)]"
    by (simp add: extendConfig_def extendObject_def Kint_new_def)
  show ?thesis
    using ext reuse cfg by auto
qed

text \<open>
  C5, as stated, fails: adding a second middleware named \<open>auth\<close> to a chain that already
  has one completes normally with a new chain, and that chain serves a request, running
  both handlers on the one context slot.
\<close>

theorem C5_same_name_composes_without_error:
  "name (announcing ''auth'' (JStr ''first'')) = name (announcing ''auth'' (JStr ''second''))
   \<and> addMiddleware_call 0 (announcing ''auth'' (JStr ''first'')) [Kint_new]
     = Inr (1, [Kint_new, addMiddleware Kint_new (announcing ''auth'' (JStr ''first''))])
   \<and> addMiddleware_call 1 (announcing ''auth'' (JStr ''second''))
        [Kint_new, addMiddleware Kint_new (announcing ''auth'' (JStr ''first''))]
     = Inr (2, [Kint_new, addMiddleware Kint_new (announcing ''auth'' (JStr ''first'')),
                addMiddleware (addMiddleware Kint_new (announcing ''auth'' (JStr ''first'')))
                  (announcing ''auth'' (JStr ''second''))])
   \<and> (\<forall>e. addMiddleware_call 1 (announcing ''auth'' (JStr ''second''))
        [Kint_new, addMiddleware Kint_new (announcing ''auth'' (JStr ''first''))] \<noteq> Inl e)
   \<and> buildConfigurableHandler
        (handlerBuilder
          (addMiddleware (addMiddleware Kint_new (announcing ''auth'' (JStr ''first'')))
             (announcing ''auth'' (JStr ''second''))))
        (announcingHandler ''H'' (JStr ''ok'')) JNull 0 fmempty
        \<lparr> contexts = (\<lambda>_. emptyContext), world = [] \<rparr>
     = (JStr ''ok'',
        \<lparr> contexts = (\<lambda>_. emptyContext)
             (0 := \<lparr> own = [''auth'' \<mapsto> JStr ''first''], proto = ObjectPrototype \<rparr>),
          world = [''auth'', ''auth'', ''H''] \<rparr>)"
  by (simp add: addMiddleware_call_def new_Kint_def addMiddleware_def Let_def Kint_new_def
        announcing_def announcingHandler_def assignIfTruthy_def assignProperty_def
        emptyContext_def)

text \<open>
  C5, amended. Composing two middleware of one name raises no error when the chain is
  built: \<^verbatim>\<open>addMiddleware\<close> performs no name check at run time and returns a new chain
  whatever the names. In the compiled chain the handler of the middleware added later
  runs first, with the configuration slot of the shared name; its \<^verbatim>\<open>next\<close>, when
  called, runs the handler of the middleware added earlier with the same configuration
  slot; and each \<^verbatim>\<open>next\<close> assigns its truthy extension to the context property of the
  shared name, the assignment of the middleware added earlier coming last. When both
  handlers call \<^verbatim>\<open>next\<close>, both run and then the innermost handler.
\<close>

theorem C5_addMiddleware_performs_no_name_check:
  "(\<exists>r heap'. addMiddleware_call this m heap = Inr (r, heap'))
   \<and> (\<forall>e. addMiddleware_call this m heap \<noteq> Inl e)
   \<and> (name m2 = name m1 \<longrightarrow>
        buildConfigurableHandler (handlerBuilder (addMiddleware (addMiddleware k m1) m2))
            H request ctx cfg
          = handler m2 request
              (\<lambda>e2 s2. handler m1 request
                 (\<lambda>e1 s1. buildConfigurableHandler (handlerBuilder k) H request ctx cfg
                    (assignIfTruthy ctx (name m1) e1 s1))
                 (getProp cfg (name m1))
                 (assignIfTruthy ctx (name m1) e2 s2))
              (getProp cfg (name m1)))
   \<and> buildConfigurableHandler
        (handlerBuilder (addMiddleware (addMiddleware Kint_new (announcing n x1))
           (announcing n x2)))
        (announcingHandler h response) rq c g s
     = (response,
        (assignIfTruthy c n x1 (assignIfTruthy c n x2 s))\<lparr> world := world s @ [n, n, h] \<rparr>)"
proof (intro conjI impI)
  show "\<exists>r heap'. addMiddleware_call this m heap = Inr (r, heap')"
    by (simp add: addMiddleware_call_def new_Kint_def)
next
  show "\<forall>e. addMiddleware_call this m heap \<noteq> Inl e"
    by (simp add: addMiddleware_call_def)
next
  assume "name m2 = name m1"
  then show "buildConfigurableHandler (handlerBuilder (addMiddleware (addMiddleware k m1) m2))
            H request ctx cfg
          = handler m2 request
              (\<lambda>e2 s2. handler m1 request
                 (\<lambda>e1 s1. buildConfigurableHandler (handlerBuilder k) H request ctx cfg
                    (assignIfTruthy ctx (name m1) e1 s1))
                 (getProp cfg (name m1))
                 (assignIfTruthy ctx (name m1) e2 s2))
              (getProp cfg (name m1))"
    by (simp add: addMiddleware_def Let_def)
next
  show "buildConfigurableHandler
        (handlerBuilder (addMiddleware (addMiddleware Kint_new (announcing n x1))
           (announcing n x2)))
        (announcingHandler h response) rq c g s
     = (response,
        (assignIfTruthy c n x1 (assignIfTruthy c n x2 s))\<lparr> world := world s @ [n, n, h] \<rparr>)"
    by (simp add: addMiddleware_def Let_def Kint_new_def announcing_def announcingHandler_def
          assignIfTruthy_def)
qed

theorem C5_addMiddleware_performs_no_name_check_witness:
  "(\<exists>r heap'. addMiddleware_call 1 (announcing ''auth'' (JStr ''second''))
        [Kint_new, addMiddleware Kint_new (announcing ''auth'' (JStr ''first''))]
      = Inr (r, heap'))
   \<and> world (snd (buildConfigurableHandler
        (handlerBuilder
          (addMiddleware (addMiddleware Kint_new (announcing ''auth'' (JStr ''first'')))
             (announcing ''auth'' (JStr ''second''))))
        (announcingHandler ''H'' (JStr ''ok'')) JNull 0 fmempty
        \<lparr> contexts = (\<lambda>_. emptyContext), world = [] \<rparr>))
     = [''auth'', ''auth'', ''H'']
   \<and> readProperty (contexts (snd (buildConfigurableHandler
        (handlerBuilder
          (addMiddleware (addMiddleware Kint_new (announcing ''auth'' (JStr ''first'')))
             (announcing ''auth'' (JStr ''second''))))
        (announcingHandler ''H'' (JStr ''ok'')) JNull 0 fmempty
        \<lparr> contexts = (\<lambda>_. emptyContext), world = [] \<rparr>)) 0) ''auth''
     = JStr ''first''"
proof -
  note returns = C5_addMiddleware_performs_no_name_check [where this = 1
      and m = "announcing ''auth'' (JStr ''second'')"
      and heap = "[Kint_new, addMiddleware Kint_new (announcing ''auth'' (JStr ''first''))]",
      THEN conjunct1]
  note shared = C5_addMiddleware_performs_no_name_check [where k = Kint_new
      and ?m1.0 = "announcing ''auth'' (JStr ''first'')"
      and ?m2.0 = "announcing ''auth'' (JStr ''second'')"
      and H = "announcingHandler ''H'' (JStr ''ok'')" and request = JNull and ctx = 0
      and cfg = fmempty, THEN conjunct2, THEN conjunct2, THEN conjunct1]
  note both = C5_addMiddleware_performs_no_name_check [where n = "''auth''"
      and ?x1.0 = "JStr ''first''" and ?x2.0 = "JStr ''second''" and h = "''H''"
      and response = "JStr ''ok''" and rq = JNull and c = 0 and g = fmempty
      and s = "\<lparr> contexts = (\<lambda>_. emptyContext), world = [] \<rparr>",
      THEN conjunct2, THEN conjunct2, THEN conjunct2]
  show ?thesis
    using returns shared both
    by (simp add: announcing_def announcingHandler_def Kint_new_def assignIfTruthy_def
          assignProperty_def emptyContext_def readProperty_def)
qed

subsection \<open>The configuration merge\<close>

lemma merge_lookup:
  "fmlookup (mergeDefaultWithMissingItems d m) k =
     (case fmlookup m k of
        None \<Rightarrow> fmlookup d k
      | Some item \<Rightarrow>
          (case fmlookup d k of
             Some (JObj dd) \<Rightarrow>
               (case item of JObj mm \<Rightarrow> Some (JObj (mergeDefaultWithMissingItems dd mm))
                | _ \<Rightarrow> Some item)
           | _ \<Rightarrow> Some item))"
  by (subst mergeDefaultWithMissingItems.simps)
     (auto split: option.splits jsval.splits intro: fmdomI)

lemma merge_self: "m = d \<Longrightarrow> mergeDefaultWithMissingItems d m = d"
proof (induction d m rule: mergeDefaultWithMissingItems.induct)
  case (1 d m)
  show ?case
  proof (rule fmap_ext)
    fix k
    show "fmlookup (mergeDefaultWithMissingItems d m) k = fmlookup d k"
      using 1 by (auto simp: merge_lookup split: option.splits jsval.splits)
  qed
qed

lemma merge_idempotent:
  "mergeDefaultWithMissingItems d (mergeDefaultWithMissingItems d m)
     = mergeDefaultWithMissingItems d m"
proof (induction d m rule: mergeDefaultWithMissingItems.induct)
  case (1 d m)
  show ?case
  proof (rule fmap_ext)
    fix k
    show "fmlookup (mergeDefaultWithMissingItems d (mergeDefaultWithMissingItems d m)) k
          = fmlookup (mergeDefaultWithMissingItems d m) k"
      using 1 by (auto simp: merge_lookup merge_self split: option.splits jsval.splits)
  qed
qed

text \<open>
  C8. Merging a merged configuration with the same default again changes nothing:
  \<open>merge d (merge d ov) = merge d ov\<close>, also through \<open>defineEndpoint\<close>. The merge
  fills the keys the override lacks from the default and keeps every explicit
  (non-object) value of the override.
\<close>

theorem C8_merge_idempotent:
  "mergeDefaultWithMissingItems d (mergeDefaultWithMissingItems d ov)
     = mergeDefaultWithMissingItems d ov
   \<and> config (data (defineEndpoint k (config (data (defineEndpoint k ov h))) h'))
     = config (data (defineEndpoint k ov h))
   \<and> (fmlookup ov key = None \<longrightarrow>
        fmlookup (mergeDefaultWithMissingItems d ov) key = fmlookup d key)
   \<and> (fmlookup ov key = Some v \<and> (\<forall>m. v \<noteq> JObj m) \<longrightarrow>
        fmlookup (mergeDefaultWithMissingItems d ov) key = Some v)"
  by (auto simp: merge_idempotent defineEndpoint_def Let_def merge_lookup
           split: option.splits jsval.splits)

theorem C8_merge_idempotent_witness:
  "mergeDefaultWithMissingItems
     (fmap_of_list [(''auth'', JObj (fmap_of_list [(''required'', JBool True), (''role'', JStr ''user'')])),
                    (''limit'', JNum 10)])
     (mergeDefaultWithMissingItems
        (fmap_of_list [(''auth'', JObj (fmap_of_list [(''required'', JBool True), (''role'', JStr ''user'')])),
                       (''limit'', JNum 10)])
        (fmap_of_list [(''auth'', JObj (fmap_of_list [(''role'', JStr ''admin'')]))]))
   = mergeDefaultWithMissingItems
        (fmap_of_list [(''auth'', JObj (fmap_of_list [(''required'', JBool True), (''role'', JStr ''user'')])),
                       (''limit'', JNum 10)])
        (fmap_of_list [(''auth'', JObj (fmap_of_list [(''role'', JStr ''admin'')]))])
   \<and> fmlookup (mergeDefaultWithMissingItems
        (fmap_of_list [(''auth'', JObj (fmap_of_list [(''required'', JBool True), (''role'', JStr ''user'')])),
                       (''limit'', JNum 10)])
        (fmap_of_list [(''auth'', JObj (fmap_of_list [(''role'', JStr ''admin'')]))])) ''limit''
     = Some (JNum 10)
   \<and> fmlookup (mergeDefaultWithMissingItems
        (fmap_of_list [(''limit'', JNum 10)])
        (fmap_of_list [(''limit'', JNum 50)])) ''limit''
     = Some (JNum 50)"
proof -
  let ?d = "fmap_of_list [(''auth'', JObj (fmap_of_list [(''required'', JBool True), (''role'', JStr ''user'')])),
                       (''limit'', JNum 10)]"
  let ?ov = "fmap_of_list [(''auth'', JObj (fmap_of_list [(''role'', JStr ''admin'')]))]"
  note idem = C8_merge_idempotent [where d = ?d and ov = ?ov, THEN conjunct1]
  note fill = C8_merge_idempotent [where d = ?d and ov = ?ov and key = "''limit''",
      THEN conjunct2, THEN conjunct2, THEN conjunct1]
  note keep = C8_merge_idempotent [where d = "fmap_of_list [(''limit'', JNum 10)]"
      and ov = "fmap_of_list [(''limit'', JNum 50)]" and key = "''limit''" and v = "JNum 50",
      THEN conjunct2, THEN conjunct2, THEN conjunct2]
  show ?thesis
    using idem fill keep by simp
qed

section \<open>Properties of the route tree\<close>

subsection \<open>Construction\<close>

lemma checkUrlParams_None_iff:
  "checkUrlParams ks ps path = None \<longleftrightarrow> set ks \<subseteq> set ps"
  by (induction ks) auto

lemma checkUrlParams_find:
  "checkUrlParams ks ps path =
     (case find (\<lambda>k. k \<notin> set ps) ks of
        None \<Rightarrow> None
      | Some k \<Rightarrow> Some (Error (missingUrlParamMessage path k)))"
  by (induction ks) auto

lemma find_append_cases:
  "find P (xs @ ys) = (case find P xs of None \<Rightarrow> find P ys | Some x \<Rightarrow> Some x)"
  by (induction xs) auto

lemma find_None_list_all: "find (\<lambda>x. \<not> P x) xs = None \<longleftrightarrow> list_all P xs"
  by (induction xs) auto

lemma populate_succeeds_iff:
  "(\<exists>t. populateWithDirectoryContents parents rel entries this = Inr t)
     \<longleftrightarrow> list_all fileAccepted
           (methodFiles ((name_node this, isUrlParam this) # parents) rel entries)"
proof (induction parents rel entries this rule: populateWithDirectoryContents.induct)
  case (1 parents rel this)
  then show ?case by simp
next
  case (2 parents rel d contents rest this)
  let ?child = "populateWithDirectoryContents ((name_node this, isUrlParam this) # parents)
                  (path_join rel d) contents (createSubRoute d)"
  note inner = "2.IH"(1) [OF refl refl]
  show ?case
  proof (cases ?child)
    case (Inl err)
    with inner show ?thesis by (simp add: Let_def)
  next
    case (Inr populated)
    note outer = "2.IH"(2) [OF refl refl Inr]
    from Inr inner outer show ?thesis by (simp add: Let_def)
  qed
next
  case (3 parents rel f loaded rest this)
  let ?chain = "(name_node this, isUrlParam this) # parents"
  show ?case
  proof (cases "httpMethodMatch f")
    case None
    with "3.IH"(1) [OF refl None] show ?thesis by (simp add: Let_def)
  next
    case (Some verb)
    show ?thesis
    proof (cases loaded)
      case Nullish
      with Some show ?thesis by (simp add: Let_def fileAccepted_def)
    next
      case (Exported marker endpoint)
      show ?thesis
      proof (cases "marker = JBool True")
        case False
        with Some Exported show ?thesis by (simp add: Let_def fileAccepted_def)
      next
        case True
        let ?check = "case urlParams (endpointDefinition endpoint) of
                        None \<Rightarrow> None
                      | Some schemaDef \<Rightarrow>
                          checkUrlParams (zodKeys schemaDef) (getAllUrlParams ?chain)
                            (path_join rel f)"
        have covered: "?check = None \<longleftrightarrow>
            set (declaredUrlParams loaded) \<subseteq> set (getAllUrlParams ?chain)"
          using Exported by (simp add: checkUrlParams_None_iff split: option.splits)
        have marked: "isKintEndpoint loaded = Inr True"
          using Exported True by simp
        show ?thesis
        proof (cases ?check)
          case None
          note rest_iff = "3.IH"(2) [OF refl Some marked refl Exported None]
          have "populateWithDirectoryContents parents rel (RegularFile f loaded # rest) this
                = populateWithDirectoryContents parents rel rest
                    (RouteTreeNode (name_node this) (isUrlParam this)
                       ((resource this)(verb \<mapsto> endpoint)) (subRoutes this))"
            using Some Exported True None by (simp add: Let_def)
          moreover have "fileAccepted (path_join rel f, ?chain, loaded)"
            using covered None Exported True by (simp add: fileAccepted_def)
          ultimately show ?thesis
            using rest_iff Some by simp
        next
          case (Some err)
          have "populateWithDirectoryContents parents rel (RegularFile f loaded # rest) this
                = Inl err"
            using \<open>httpMethodMatch f = Some verb\<close> Exported True Some
            by (simp add: Let_def)
          moreover have "\<not> fileAccepted (path_join rel f, ?chain, loaded)"
            using covered Some by (simp add: fileAccepted_def)
          ultimately show ?thesis
            using \<open>httpMethodMatch f = Some verb\<close> by simp
        qed
      qed
    qed
  qed
qed

lemma populate_first_offender:
  "find (\<lambda>file. \<not> fileAccepted file)
        (methodFiles ((name_node this, isUrlParam this) # parents) rel entries) = Some file
   \<Longrightarrow> \<exists>e. populateWithDirectoryContents parents rel entries this = Inl e \<and> raisedBy e file"
proof (induction parents rel entries this rule: populateWithDirectoryContents.induct)
  case (1 parents rel this)
  then show ?case by simp
next
  case (2 parents rel d contents rest this)
  let ?child = "populateWithDirectoryContents ((name_node this, isUrlParam this) # parents)
                  (path_join rel d) contents (createSubRoute d)"
  let ?inner = "methodFiles ((name_node (createSubRoute d :: ('a, 'b) RouteTreeNode),
                   isUrlParam (createSubRoute d :: ('a, 'b) RouteTreeNode))
                  # (name_node this, isUrlParam this) # parents) (path_join rel d) contents"
  let ?outer = "methodFiles ((name_node this, isUrlParam this) # parents) rel rest"
  from "2.prems" have found:
    "(case find (\<lambda>file. \<not> fileAccepted file) ?inner of
        None \<Rightarrow> find (\<lambda>file. \<not> fileAccepted file) ?outer
      | Some x \<Rightarrow> Some x) = Some file"
    by (simp add: find_append_cases)
  show ?case
  proof (cases "find (\<lambda>file. \<not> fileAccepted file) ?inner")
    case (Some x)
    with found have "x = file" by simp
    with Some "2.IH"(1) [OF refl refl] obtain e where "?child = Inl e" "raisedBy e file"
      by auto
    then show ?thesis by (simp add: Let_def)
  next
    case None
    then have "list_all fileAccepted ?inner" by (simp add: find_None_list_all)
    then obtain populated where child: "?child = Inr populated"
      using populate_succeeds_iff [of "(name_node this, isUrlParam this) # parents"
          "path_join rel d" contents "createSubRoute d"]
      by auto
    from None found have "find (\<lambda>file. \<not> fileAccepted file) ?outer = Some file" by simp
    with "2.IH"(2) [OF refl refl child] child show ?thesis by (simp add: Let_def)
  qed
next
  case (3 parents rel f loaded rest this)
  let ?chain = "(name_node this, isUrlParam this) # parents"
  let ?outer = "methodFiles ?chain rel rest"
  show ?case
  proof (cases "httpMethodMatch f")
    case None
    with "3.IH"(1) [OF refl None] "3.prems" show ?thesis by (simp add: Let_def)
  next
    case (Some verb)
    show ?thesis
    proof (cases "fileAccepted (path_join rel f, ?chain, loaded)")
      case False
      with "3.prems" Some have which: "file = (path_join rel f, ?chain, loaded)" by simp
      from False Some show ?thesis
        unfolding which
        by (cases loaded)
           (auto simp: Let_def fileAccepted_def raisedBy_def checkUrlParams_find
                 find_None_iff
                 split: option.splits)
    next
      case True
      then obtain marker endpoint where loaded: "loaded = Exported marker endpoint"
        and marker: "marker = JBool True"
        and covered: "set (declaredUrlParams loaded) \<subseteq> set (getAllUrlParams ?chain)"
        by (cases loaded) (auto simp: fileAccepted_def)
      have marked: "isKintEndpoint loaded = Inr True"
        using loaded marker by simp
      have check: "(case urlParams (endpointDefinition endpoint) of
                        None \<Rightarrow> None
                      | Some schemaDef \<Rightarrow>
                          checkUrlParams (zodKeys schemaDef) (getAllUrlParams ?chain)
                            (path_join rel f)) = None"
        using covered loaded
        by (cases "urlParams (endpointDefinition endpoint)") (simp_all add: checkUrlParams_None_iff)
      from True Some "3.prems"
      have "find (\<lambda>file. \<not> fileAccepted file) ?outer = Some file" by simp
      with "3.IH"(2) [OF refl Some marked refl loaded check]
      obtain e where "populateWithDirectoryContents parents rel rest
                    (RouteTreeNode (name_node this) (isUrlParam this)
                       ((resource this)(verb \<mapsto> endpoint)) (subRoutes this)) = Inl e"
        and "raisedBy e file" by auto
      then show ?thesis
        using Some loaded marker check by (simp add: Let_def)
    qed
  qed
qed

lemma getAllUrlParams_filter: "getAllUrlParams chain = map fst (filter snd chain)"
  by (induction chain rule: getAllUrlParams.induct) auto

lemma method_file_step:
  assumes "httpMethodMatch f = Some method"
    and "urlParams (endpointDefinition endpoint) = Some schemaDef"
  shows "populateWithDirectoryContents parents rel
           (RegularFile f (Exported (JBool True) endpoint) # rest) this =
         (case find (\<lambda>k. k \<notin> set (getAllUrlParams ((name_node this, isUrlParam this) # parents)))
                 (zodKeys schemaDef) of
            Some key \<Rightarrow> Inl (Error (missingUrlParamMessage (path_join rel f) key))
          | None \<Rightarrow>
              populateWithDirectoryContents parents rel rest
                (RouteTreeNode (name_node this) (isUrlParam this)
                   ((resource this)(method \<mapsto> endpoint)) (subRoutes this)))"
  using assms
  by (simp add: Let_def checkUrlParams_find del: getAllUrlParams.simps split: option.splits)

lemma missingUrlParamMessage_text:
  "missingUrlParamMessage path key =
     ''Endpoint at /'' @ path @ '' defines a URL parameter in it's schema ('' @ key
       @ '') that does not exist in the route path.''"
  by (simp add: missingUrlParamMessage_def)

text \<open>
  C2. Construction succeeds exactly when every method file carries the marker and every
  key of its URL-parameter schema is among the names of the URL-parameter nodes from the
  file's node up to the root, the node itself included. When the first method file that
  is not accepted carries the marker, construction fails with the error whose message is
  \<^verbatim>\<open>Endpoint at /\<close>, the file's path, \<^verbatim>\<open> defines a URL parameter in it's schema (\<close>,
  a declared key missing from the route, and
  \<^verbatim>\<open>) that does not exist in the route path.\<close> At the file itself: the first declared
  key that is missing raises that error, and with every key present the endpoint is bound
  and the traversal goes on.
\<close>

theorem C2_url_params_checked_against_ancestors:
  "((\<exists>tree. fromDirectory directory = Inr tree)
      \<longleftrightarrow> list_all fileAccepted (methodFiles [(''root'', False)] ''./'' directory))
   \<and> (find (\<lambda>file. \<not> fileAccepted file) (methodFiles [(''root'', False)] ''./'' directory)
          = Some (path, chain, Exported (JBool True) endpoint)
        \<longrightarrow> (\<exists>key schemaDef.
               urlParams (endpointDefinition endpoint) = Some schemaDef
             \<and> key \<in> set (zodKeys schemaDef)
             \<and> key \<notin> set (getAllUrlParams chain)
             \<and> fromDirectory directory = Inl (Error (''Endpoint at /'' @ path
                    @ '' defines a URL parameter in it's schema ('' @ key
                    @ '') that does not exist in the route path.''))))
   \<and> (httpMethodMatch f = Some method
        \<and> urlParams (endpointDefinition e) = Some schemaDef
        \<longrightarrow> populateWithDirectoryContents parents rel
              (RegularFile f (Exported (JBool True) e) # rest) this =
            (case find (\<lambda>k. k \<notin> set (getAllUrlParams
                                        ((name_node this, isUrlParam this) # parents)))
                    (zodKeys schemaDef) of
               Some key \<Rightarrow> Inl (Error (''Endpoint at /'' @ path_join rel f
                    @ '' defines a URL parameter in it's schema ('' @ key
                    @ '') that does not exist in the route path.''))
             | None \<Rightarrow>
                 populateWithDirectoryContents parents rel rest
                   (RouteTreeNode (name_node this) (isUrlParam this)
                      ((resource this)(method \<mapsto> e)) (subRoutes this))))
   \<and> getAllUrlParams chain' = map fst (filter snd chain')"
proof (intro conjI impI)
  show "(\<exists>tree. fromDirectory directory = Inr tree)
      \<longleftrightarrow> list_all fileAccepted (methodFiles [(''root'', False)] ''./'' directory)"
    unfolding fromDirectory_def
    using populate_succeeds_iff [of "[]" "''./''" directory "RouteTreeNode ''root'' False Map.empty []"]
    by simp
next
  assume first: "find (\<lambda>file. \<not> fileAccepted file)
                   (methodFiles [(''root'', False)] ''./'' directory)
                 = Some (path, chain, Exported (JBool True) endpoint)"
  then obtain err where failed: "fromDirectory directory = Inl err"
    and raised: "raisedBy err (path, chain, Exported (JBool True) endpoint)"
    unfolding fromDirectory_def
    using populate_first_offender [of "RouteTreeNode ''root'' False Map.empty []" "[]" "''./''"
        directory "(path, chain, Exported (JBool True) endpoint)"]
    by auto
  from raised obtain key where
      missing: "find (\<lambda>k. k \<notin> set (getAllUrlParams chain))
                  (declaredUrlParams (Exported (JBool True) endpoint)) = Some key"
    and err: "err = Error (missingUrlParamMessage path key)"
    by (auto simp: raisedBy_def split: option.splits)
  from missing obtain schemaDef where
      declared: "urlParams (endpointDefinition endpoint) = Some schemaDef"
    by (cases "urlParams (endpointDefinition endpoint)") auto
  with missing have "key \<in> set (zodKeys schemaDef)" "key \<notin> set (getAllUrlParams chain)"
    by (auto simp: find_Some_iff)
  with declared failed err
  show "\<exists>key schemaDef.
               urlParams (endpointDefinition endpoint) = Some schemaDef
             \<and> key \<in> set (zodKeys schemaDef)
             \<and> key \<notin> set (getAllUrlParams chain)
             \<and> fromDirectory directory = Inl (Error (''Endpoint at /'' @ path
                    @ '' defines a URL parameter in it's schema ('' @ key
                    @ '') that does not exist in the route path.''))"
    unfolding missingUrlParamMessage_text by blast
next
  assume "httpMethodMatch f = Some method \<and> urlParams (endpointDefinition e) = Some schemaDef"
  then show "populateWithDirectoryContents parents rel
              (RegularFile f (Exported (JBool True) e) # rest) this =
            (case find (\<lambda>k. k \<notin> set (getAllUrlParams
                                        ((name_node this, isUrlParam this) # parents)))
                    (zodKeys schemaDef) of
               Some key \<Rightarrow> Inl (Error (''Endpoint at /'' @ path_join rel f
                    @ '' defines a URL parameter in it's schema ('' @ key
                    @ '') that does not exist in the route path.''))
             | None \<Rightarrow>
                 populateWithDirectoryContents parents rel rest
                   (RouteTreeNode (name_node this) (isUrlParam this)
                      ((resource this)(method \<mapsto> e)) (subRoutes this)))"
    using method_file_step [of f "method" e schemaDef parents rel rest this]
    unfolding missingUrlParamMessage_text by blast
next
  show "getAllUrlParams chain' = map fst (filter snd chain')"
    by (rule getAllUrlParams_filter)
qed

lemma urlParamMatch_id: "urlParamMatch ''[id]'' = Some ''id''"
  by (simp add: urlParamMatch_def wordChar_def)

lemma urlParamMatch_users: "urlParamMatch ''users'' = None"
  by (simp add: urlParamMatch_def)

lemma methodFiles_usersIdPost:
  "methodFiles [(''root'', False)] ''./'' (usersIdPost keys) =
     [(''users/[id]/POST.ts'', [(''id'', True), (''users'', False), (''root'', False)],
       Exported (JBool True) (exampleEndpoint keys))]"
  by (simp add: usersIdPost_def createSubRoute_def urlParamMatch_id urlParamMatch_users
        path_join_def httpMethodMatch_def)

theorem C2_url_params_checked_against_ancestors_witness:
  "fromDirectory (usersIdPost [''id'', ''extra''])
     = Inl (Error (''Endpoint at /users/[id]/POST.ts defines a URL parameter in it's schema (extra) that does not exist in the route path.''))
   \<and> (\<exists>tree. fromDirectory (usersIdPost [''id'']) = Inr tree)"
proof -
  note good = C2_url_params_checked_against_ancestors
      [where directory = "usersIdPost [''id'']", THEN conjunct1]
  note bad = C2_url_params_checked_against_ancestors
      [where directory = "usersIdPost [''id'', ''extra'']"
         and path = "''users/[id]/POST.ts''"
         and chain = "[(''id'', True), (''users'', False), (''root'', False)]"
         and endpoint = "exampleEndpoint [''id'', ''extra'']",
       THEN conjunct2, THEN conjunct1]
  have accepted: "list_all fileAccepted
      (methodFiles [(''root'', False)] ''./'' (usersIdPost [''id'']))"
    by (simp add: methodFiles_usersIdPost fileAccepted_def exampleEndpoint_def)
  have offender: "find (\<lambda>file. \<not> fileAccepted file)
      (methodFiles [(''root'', False)] ''./'' (usersIdPost [''id'', ''extra'']))
    = Some (''users/[id]/POST.ts'', [(''id'', True), (''users'', False), (''root'', False)],
            Exported (JBool True) (exampleEndpoint [''id'', ''extra'']))"
    by (simp add: methodFiles_usersIdPost fileAccepted_def exampleEndpoint_def)
  from bad offender have "fromDirectory (usersIdPost [''id'', ''extra''])
     = Inl (Error (''Endpoint at /users/[id]/POST.ts defines a URL parameter in it's schema (extra) that does not exist in the route path.''))"
    by (auto simp: exampleEndpoint_def)
  moreover from good accepted have "\<exists>tree. fromDirectory (usersIdPost [''id'']) = Inr tree"
    by simp
  ultimately show ?thesis by simp
qed

text \<open>
  C6. A method file whose module has no default export ends the build with the TypeError
  of reading \<^verbatim>\<open>builtByKint\<close> of \<^verbatim>\<open>undefined\<close>, not with the descriptive error that
  names the path; a default export other than \<^verbatim>\<open>undefined\<close> and \<^verbatim>\<open>null\<close> without
  the marker ends it with the descriptive error.
\<close>

theorem C6_missing_default_export_raises_TypeError:
  "fromDirectory [RegularFile ''POST.ts'' Nullish] = Inl (TypeError ''builtByKint'')
   \<and> fromDirectory [RegularFile ''POST.ts'' Nullish]
       \<noteq> Inl (Error (notKintEndpointMessage ''POST.ts''))
   \<and> fromDirectory [RegularFile ''POST.ts'' (Exported JUndefined e)]
       = Inl (Error (notKintEndpointMessage ''POST.ts''))
   \<and> notKintEndpointMessage ''POST.ts'' = ''Endpoint at route POST.ts is not a Kint endpoint''"
  by (simp add: fromDirectory_def httpMethodMatch_def Let_def path_join_def
        notKintEndpointMessage_def)

lemma unmarked_export_rejected:
  assumes "httpMethodMatch f = Some method" and "marker \<noteq> JBool True"
  shows "populateWithDirectoryContents parents rel (RegularFile f (Exported marker e) # rest) this
         = Inl (Error (notKintEndpointMessage (path_join rel f)))"
  using assms by (simp add: Let_def)

subsection \<open>The per-node request handler\<close>

text \<open>
  C3. Parsing is attempted in the order body, query, URL parameters. The first field whose
  parse fails ends the request with status 400 and the body \<^verbatim>\<open>Bad request: \<close> followed
  by the failure's message; the state is the one that parse left, so no later field is
  parsed and neither the endpoint handler nor \<^verbatim>\<open>next\<close> runs: the outcome does not
  depend on the later schemas, the handler or the continuation.
\<close>

theorem C3_first_parse_failure_short_circuits:
  "(parseSchemaDefinition (orEmpty emptyDefinition (requestBody (endpointDefinition endpoint)))
        (body (req s0)) (outside s0) = (Failure message, w1)
      \<longrightarrow> createHandlerFromEndpoint emptyDefinition endpoint ctx continue s0
            = s0\<lparr> res := (res s0)\<lparr> statusCode := 400,
                                    sent := Some (''Bad request: '' @ message) \<rparr>,
                  outside := w1 \<rparr>
        \<and> createHandlerFromEndpoint emptyDefinition endpoint ctx continue s0
            = createHandlerFromEndpoint emptyDefinition
                (endpoint\<lparr> endpointDefinition :=
                             (endpointDefinition endpoint)\<lparr> queryParams := otherQuery,
                                                             urlParams := otherParams \<rparr>,
                           handler_endpoint := otherHandler \<rparr>)
                ctx otherContinue s0)
   \<and> (parseSchemaDefinition (orEmpty emptyDefinition (requestBody (endpointDefinition endpoint)))
        (body (req s0)) (outside s0) = (Success parsedBody, w1)
      \<and> parseSchemaDefinition (orEmpty emptyDefinition (queryParams (endpointDefinition endpoint)))
        (query (req s0)) w1 = (Failure message, w2)
      \<longrightarrow> createHandlerFromEndpoint emptyDefinition endpoint ctx continue s0
            = s0\<lparr> req := (req s0)\<lparr> body := parsedBody \<rparr>,
                  res := (res s0)\<lparr> statusCode := 400,
                                    sent := Some (''Bad request: '' @ message) \<rparr>,
                  outside := w2 \<rparr>
        \<and> createHandlerFromEndpoint emptyDefinition endpoint ctx continue s0
            = createHandlerFromEndpoint emptyDefinition
                (endpoint\<lparr> endpointDefinition :=
                             (endpointDefinition endpoint)\<lparr> urlParams := otherParams \<rparr>,
                           handler_endpoint := otherHandler \<rparr>)
                ctx otherContinue s0)
   \<and> (parseSchemaDefinition (orEmpty emptyDefinition (requestBody (endpointDefinition endpoint)))
        (body (req s0)) (outside s0) = (Success parsedBody, w1)
      \<and> parseSchemaDefinition (orEmpty emptyDefinition (queryParams (endpointDefinition endpoint)))
        (query (req s0)) w1 = (Success parsedQueryParams, w2)
      \<and> parseSchemaDefinition (orEmpty emptyDefinition (urlParams (endpointDefinition endpoint)))
        (params (req s0)) w2 = (Failure message, w3)
      \<longrightarrow> createHandlerFromEndpoint emptyDefinition endpoint ctx continue s0
            = s0\<lparr> req := (req s0)\<lparr> body := parsedBody, query := parsedQueryParams \<rparr>,
                  res := (res s0)\<lparr> statusCode := 400,
                                    sent := Some (''Bad request: '' @ message) \<rparr>,
                  outside := w3 \<rparr>
        \<and> createHandlerFromEndpoint emptyDefinition endpoint ctx continue s0
            = createHandlerFromEndpoint emptyDefinition
                (endpoint\<lparr> handler_endpoint := otherHandler \<rparr>) ctx otherContinue s0)"
  by (simp add: createHandlerFromEndpoint_def Let_def send400_def)

theorem C3_first_parse_failure_short_circuits_witness:
  "createHandlerFromEndpoint (loggingSchema ''empty'' True) (loggingEndpoint False False False) ()
       (\<lambda>s. s\<lparr> outside := outside s @ [''next''] \<rparr>) incoming
     = incoming\<lparr> res := \<lparr> statusCode = 400, sent = Some ''Bad request: body is invalid'' \<rparr>,
                  outside := [''body''] \<rparr>
   \<and> createHandlerFromEndpoint (loggingSchema ''empty'' True) (loggingEndpoint True False False) ()
       (\<lambda>s. s\<lparr> outside := outside s @ [''next''] \<rparr>) incoming
     = incoming\<lparr> req := \<lparr> body = JObj (fmap_of_list [(''body'', JStr ''b'')]),
                            query = JStr ''q'', params = JStr ''p'' \<rparr>,
                  res := \<lparr> statusCode = 400, sent = Some ''Bad request: query is invalid'' \<rparr>,
                  outside := [''body'', ''query''] \<rparr>
   \<and> createHandlerFromEndpoint (loggingSchema ''empty'' True) (loggingEndpoint True True False) ()
       (\<lambda>s. s\<lparr> outside := outside s @ [''next''] \<rparr>) incoming
     = incoming\<lparr> req := \<lparr> body = JObj (fmap_of_list [(''body'', JStr ''b'')]),
                            query = JObj (fmap_of_list [(''query'', JStr ''q'')]),
                            params = JStr ''p'' \<rparr>,
                  res := \<lparr> statusCode = 400, sent = Some ''Bad request: params is invalid'' \<rparr>,
                  outside := [''body'', ''query'', ''params''] \<rparr>"
proof -
  note bodyFails = C3_first_parse_failure_short_circuits
      [where emptyDefinition = "loggingSchema ''empty'' True"
         and endpoint = "loggingEndpoint False False False" and ?s0.0 = incoming
         and message = "''body is invalid''" and ?w1.0 = "[''body'']"
         and continue = "\<lambda>s. s\<lparr> outside := outside s @ [''next''] \<rparr>" and ctx = "()",
       THEN conjunct1, THEN mp, THEN conjunct1]
  note queryFails = C3_first_parse_failure_short_circuits
      [where emptyDefinition = "loggingSchema ''empty'' True"
         and endpoint = "loggingEndpoint True False False" and ?s0.0 = incoming
         and parsedBody = "JObj (fmap_of_list [(''body'', JStr ''b'')])"
         and message = "''query is invalid''" and ?w1.0 = "[''body'']"
         and ?w2.0 = "[''body'', ''query'']"
         and continue = "\<lambda>s. s\<lparr> outside := outside s @ [''next''] \<rparr>" and ctx = "()",
       THEN conjunct2, THEN conjunct1, THEN mp, THEN conjunct1]
  note paramsFail = C3_first_parse_failure_short_circuits
      [where emptyDefinition = "loggingSchema ''empty'' True"
         and endpoint = "loggingEndpoint True True False" and ?s0.0 = incoming
         and parsedBody = "JObj (fmap_of_list [(''body'', JStr ''b'')])"
         and parsedQueryParams = "JObj (fmap_of_list [(''query'', JStr ''q'')])"
         and message = "''params is invalid''" and ?w1.0 = "[''body'']"
         and ?w2.0 = "[''body'', ''query'']" and ?w3.0 = "[''body'', ''query'', ''params'']"
         and continue = "\<lambda>s. s\<lparr> outside := outside s @ [''next''] \<rparr>" and ctx = "()",
       THEN conjunct2, THEN conjunct2, THEN mp, THEN conjunct1]
  have first: "createHandlerFromEndpoint (loggingSchema ''empty'' True)
       (loggingEndpoint False False False) ()
       (\<lambda>s. s\<lparr> outside := outside s @ [''next''] \<rparr>) incoming
     = incoming\<lparr> res := \<lparr> statusCode = 400, sent = Some ''Bad request: body is invalid'' \<rparr>,
                  outside := [''body''] \<rparr>"
    using bodyFails by (simp add: loggingEndpoint_def loggingSchema_def orEmpty_def incoming_def)
  have second: "createHandlerFromEndpoint (loggingSchema ''empty'' True)
       (loggingEndpoint True False False) ()
       (\<lambda>s. s\<lparr> outside := outside s @ [''next''] \<rparr>) incoming
     = incoming\<lparr> req := \<lparr> body = JObj (fmap_of_list [(''body'', JStr ''b'')]),
                            query = JStr ''q'', params = JStr ''p'' \<rparr>,
                  res := \<lparr> statusCode = 400, sent = Some ''Bad request: query is invalid'' \<rparr>,
                  outside := [''body'', ''query''] \<rparr>"
    using queryFails by (simp add: loggingEndpoint_def loggingSchema_def orEmpty_def incoming_def)
  have third: "createHandlerFromEndpoint (loggingSchema ''empty'' True)
       (loggingEndpoint True True False) ()
       (\<lambda>s. s\<lparr> outside := outside s @ [''next''] \<rparr>) incoming
     = incoming\<lparr> req := \<lparr> body = JObj (fmap_of_list [(''body'', JStr ''b'')]),
                            query = JObj (fmap_of_list [(''query'', JStr ''q'')]),
                            params = JStr ''p'' \<rparr>,
                  res := \<lparr> statusCode = 400, sent = Some ''Bad request: params is invalid'' \<rparr>,
                  outside := [''body'', ''query'', ''params''] \<rparr>"
    using paramsFail by (simp add: loggingEndpoint_def loggingSchema_def orEmpty_def incoming_def)
  from first second third show ?thesis by simp
qed

text \<open>
  C4. When body, query and URL parameters all parse, the endpoint handler runs on the
  request whose three fields are the parsed values, in the state the last parse left; the
  response is what the handler leaves, and \<^verbatim>\<open>next\<close> runs after the handler, on the state
  the handler returns.
\<close>

theorem C4_all_parsed_then_handler_then_next:
  "parseSchemaDefinition (orEmpty emptyDefinition (requestBody (endpointDefinition endpoint)))
        (body (req s0)) (outside s0) = (Success parsedBody, w1)
   \<and> parseSchemaDefinition (orEmpty emptyDefinition (queryParams (endpointDefinition endpoint)))
        (query (req s0)) w1 = (Success parsedQueryParams, w2)
   \<and> parseSchemaDefinition (orEmpty emptyDefinition (urlParams (endpointDefinition endpoint)))
        (params (req s0)) w2 = (Success parsedUrlParams, w3)
   \<longrightarrow> createHandlerFromEndpoint emptyDefinition endpoint ctx continue s0
         = continue (handler_endpoint endpoint ctx
             (s0\<lparr> req := (req s0)\<lparr> body := parsedBody, query := parsedQueryParams,
                                     params := parsedUrlParams \<rparr>,
                   outside := w3 \<rparr>))"
  by (simp add: createHandlerFromEndpoint_def Let_def)

theorem C4_all_parsed_then_handler_then_next_witness:
  "createHandlerFromEndpoint (loggingSchema ''empty'' True) (loggingEndpoint True True True) ()
       (\<lambda>s. s\<lparr> outside := outside s @ [''next''] \<rparr>) incoming
     = \<lparr> req = \<lparr> body = JObj (fmap_of_list [(''body'', JStr ''b'')]),
                  query = JObj (fmap_of_list [(''query'', JStr ''q'')]),
                  params = JObj (fmap_of_list [(''params'', JStr ''p'')]) \<rparr>,
         res = \<lparr> statusCode = 200, sent = Some ''done'' \<rparr>,
         outside = [''body'', ''query'', ''params'', ''handler'', ''next''] \<rparr>"
proof -
  note allParse = C4_all_parsed_then_handler_then_next
      [where emptyDefinition = "loggingSchema ''empty'' True"
         and endpoint = "loggingEndpoint True True True" and ?s0.0 = incoming
         and parsedBody = "JObj (fmap_of_list [(''body'', JStr ''b'')])"
         and parsedQueryParams = "JObj (fmap_of_list [(''query'', JStr ''q'')])"
         and parsedUrlParams = "JObj (fmap_of_list [(''params'', JStr ''p'')])"
         and ?w1.0 = "[''body'']" and ?w2.0 = "[''body'', ''query'']"
         and ?w3.0 = "[''body'', ''query'', ''params'']"
         and continue = "\<lambda>s. s\<lparr> outside := outside s @ [''next''] \<rparr>" and ctx = "()",
       THEN mp]
  show ?thesis
    using allParse by (simp add: loggingEndpoint_def loggingSchema_def orEmpty_def incoming_def)
qed

end
